theory Spec2Isabelle
  imports Complex_Main
begin

section \<open>TokPay: offline payment tokens and their reconciliation\<close>

text \<open>
  The development embeds five pieces of the repository:
  \<^item> the backend route \<^verbatim>\<open>POST /api/load-balance\<close> (backend/server.js);
  \<^item> the merchant application's reducer and \<^verbatim>\<open>verifyPaymentToken\<close>;
  \<^item> the wallet application's reducer and \<^verbatim>\<open>signPaymentToken\<close>;
  \<^item> the wallet's payment screen, \<^verbatim>\<open>handlePay\<close> and \<^verbatim>\<open>saveOfflinePayment\<close>;
  \<^item> the backend route \<^verbatim>\<open>POST /api/sync\<close> (backend/server.js), whose database
    statements complete through callbacks in an order the handler does not control.

  Amounts and balances are JavaScript numbers and SQLite \<open>REAL\<close> columns, that is
  IEEE 754 doubles: a finite double is a rational, and an addition or subtraction yields
  the exact result rounded to the nearest double. Counters and millisecond timestamps are
  integers (doubles are exact on them below \<open>2^53\<close>). The libraries the code calls
  (tweetnacl, tweetnacl-util, \<open>JSON.stringify\<close>) are parameters of the model; SQLite
  statements are modelled by their effect on tables. Message strings are the source's,
  without the currency sign.
\<close>

subsection \<open>Double-precision arithmetic\<close>

text \<open>The number of binary digits of a positive integer.\<close>

function bit_length :: "int \<Rightarrow> int" where
  "bit_length n = (if n \<le> 0 then 0 else 1 + bit_length (n div 2))"
  by pat_completeness auto
termination
  by (relation "measure nat") auto

text \<open>The exponent \<open>e\<close> with \<open>2^e \<le> |x| < 2^(e+1)\<close>, for \<open>x\<close> other than 0.\<close>

definition binade :: "rat \<Rightarrow> int" where
  "binade x =
     (let k = bit_length \<bar>fst (quotient_of x)\<bar> - bit_length (snd (quotient_of x))
      in if 2 powi k \<le> \<bar>x\<bar> then k else k - 1)"

definition round_half_even :: "rat \<Rightarrow> int" where
  "round_half_even x =
     (let n = \<lfloor>x\<rfloor>; r = x - of_int n
      in if r < 1 / 2 then n else if 1 / 2 < r then n + 1 else if even n then n else n + 1)"

text \<open>
  The double nearest to \<open>x\<close>, ties to even: doubles in the binade of \<open>x\<close> are the
  multiples of \<open>2^(e - 52)\<close>, and of \<open>2^(-1074)\<close> below the normal range. Overflow to
  \<open>Infinity\<close> (magnitudes from \<open>2^1024\<close> on) is left out.
\<close>

definition double_round :: "rat \<Rightarrow> rat" where
  "double_round x =
     (if x = 0 then 0
      else (let u = 2 powi (max (binade x) (- 1022) - 52)
            in of_int (round_half_even (x / u)) * u))"

subsection \<open>Load offline balance\<close>

record user_row =
  balance :: rat
  offline_balance :: rat
  public_key :: string

record merchant_row =
  merchant_balance :: rat
  merchant_public_key :: string

datatype account_type = UserAccount | MerchantAccount

text \<open>
  The JSON bodies the route answers with. The message of the capacity error interpolates
  \<open>2000 - user.offline_balance\<close>; the constructor carries that number.
\<close>

datatype load_body =
    ErrorMessage string
  | CanOnlyLoadMore rat
  | BalanceLoaded rat rat

type_synonym load_response = "nat \<times> load_body"

text \<open>
  \<open>load_balance acct phone amount get_err run_err users\<close>: \<open>acct\<close> and \<open>phone\<close> come from
  the verified access token (\<open>req.user\<close>), \<open>amount\<close> from the request body (\<open>None\<close> when
  the field is absent), \<open>get_err\<close> and \<open>run_err\<close> say whether the \<open>SELECT\<close> and the
  \<open>UPDATE\<close> report a storage error. The result is the response and the users table.
  The sums and differences are those of doubles, in the handler and in the \<open>UPDATE\<close>.
\<close>

definition load_balance ::
  "account_type \<Rightarrow> string \<Rightarrow> rat option \<Rightarrow> bool \<Rightarrow> bool \<Rightarrow> (string \<rightharpoonup> user_row)
     \<Rightarrow> load_response \<times> (string \<rightharpoonup> user_row)" where
  "load_balance acct phone amount get_err run_err users =
     (case acct of
        MerchantAccount \<Rightarrow> ((403, ErrorMessage ''Only users can load balance''), users)
      | UserAccount \<Rightarrow>
     (case amount of
        None \<Rightarrow> ((400, ErrorMessage ''Invalid amount''), users)
      | Some a \<Rightarrow>
          if a \<le> 0 then ((400, ErrorMessage ''Invalid amount''), users)
          else if a > 2000 then ((400, ErrorMessage ''Maximum offline balance is 2000''), users)
          else (case (if get_err then None else users phone) of
                  None \<Rightarrow> ((404, ErrorMessage ''User not found''), users)
                | Some user \<Rightarrow>
                    if double_round (offline_balance user + a) > 2000
                      then ((400, CanOnlyLoadMore (double_round (2000 - offline_balance user))),
                            users)
                    else if balance user < a
                      then ((400, ErrorMessage ''Insufficient balance''), users)
                    else if run_err
                      then ((500, ErrorMessage ''Failed to load balance''), users)
                    else ((200, BalanceLoaded (double_round (balance user - a))
                                   (double_round (offline_balance user + a))),
                          users(phone \<mapsto>
                            user\<lparr>balance := double_round (balance user - a),
                                 offline_balance := double_round (offline_balance user + a)\<rparr>)))))"

subsection \<open>Payment tokens\<close>

text \<open>
  A token as it travels: the fields \<open>signPaymentToken\<close> writes, any further fields the
  JSON object carries (\<open>tok_extra\<close>), and the two fields \<open>verifyPaymentToken\<close> strips
  before it recomputes the signed message. \<open>tok_from\<close> is absent when the wallet has no
  user; \<open>tok_signature\<close> and \<open>tok_publicKey\<close> are absent when the object lacks them.
\<close>

record token =
  tok_from :: "string option"
  tok_to :: string
  tok_amount :: rat
  tok_counter :: int
  tok_timestamp :: int
  tok_txnId :: string
  tok_extra :: "(string \<times> string) list"
  tok_signature :: "string option"
  tok_publicKey :: "string option"

type_synonym bytes = "nat list"

text \<open>
  The library functions, as parameters. \<open>decodeBase64\<close>, \<open>detached_verify\<close>
  (\<open>nacl.sign.detached.verify\<close>) and \<open>detached_sign\<close> (\<open>nacl.sign.detached\<close>) throw on
  input they do not accept: the result is \<open>None\<close>.
\<close>

record lib =
  stringify :: "token \<Rightarrow> string"
  decodeUTF8 :: "string \<Rightarrow> bytes"
  decodeBase64 :: "string option \<Rightarrow> bytes option"
  encodeBase64 :: "bytes \<Rightarrow> string"
  detached_verify :: "bytes \<Rightarrow> bytes \<Rightarrow> bytes \<Rightarrow> bool option"
  detached_sign :: "bytes \<Rightarrow> bytes \<Rightarrow> bytes option"

text \<open>The object \<open>tokenData\<close> left by \<open>const { signature, publicKey, ...tokenData } = token\<close>.\<close>

definition tokenData :: "token \<Rightarrow> token" where
  "tokenData t = t\<lparr>tok_signature := None, tok_publicKey := None\<rparr>"


subsection \<open>Merchant application: reducer and token verification\<close>

record merchant_state =
  merchant :: "string option"
  m_isLoggedIn :: bool
  m_balance :: rat
  m_keyPair :: "(string \<times> string) option"
  m_transactions :: "token list"
  m_pendingSync :: "token list"
  bleActive :: bool
  lastCounter :: "string \<rightharpoonup> int"

datatype merchant_action =
    SET_MERCHANT string
  | M_SET_BALANCE rat
  | M_SET_KEYPAIR "string \<times> string"
  | M_ADD_TRANSACTION token
  | M_ADD_PENDING_SYNC token
  | M_CLEAR_PENDING_SYNC
  | SET_BLE_ACTIVE bool
  | UPDATE_COUNTER string int
  | M_LOGOUT

definition merchant_initialState :: merchant_state where
  "merchant_initialState =
     \<lparr>merchant = None, m_isLoggedIn = False, m_balance = 0, m_keyPair = None,
      m_transactions = [], m_pendingSync = [], bleActive = False, lastCounter = Map.empty\<rparr>"

fun merchant_appReducer :: "merchant_state \<Rightarrow> merchant_action \<Rightarrow> merchant_state" where
  "merchant_appReducer s (SET_MERCHANT m) = s\<lparr>merchant := Some m, m_isLoggedIn := True\<rparr>"
| "merchant_appReducer s (M_SET_BALANCE b) = s\<lparr>m_balance := b\<rparr>"
| "merchant_appReducer s (M_SET_KEYPAIR kp) = s\<lparr>m_keyPair := Some kp\<rparr>"
| "merchant_appReducer s (M_ADD_TRANSACTION t) =
     s\<lparr>m_transactions := t # m_transactions s,
       m_balance := double_round (m_balance s + tok_amount t)\<rparr>"
| "merchant_appReducer s (M_ADD_PENDING_SYNC t) = s\<lparr>m_pendingSync := m_pendingSync s @ [t]\<rparr>"
| "merchant_appReducer s M_CLEAR_PENDING_SYNC = s\<lparr>m_pendingSync := []\<rparr>"
| "merchant_appReducer s (SET_BLE_ACTIVE a) = s\<lparr>bleActive := a\<rparr>"
| "merchant_appReducer s (UPDATE_COUNTER userPhone c) =
     s\<lparr>lastCounter := (lastCounter s)(userPhone \<mapsto> c)\<rparr>"
| "merchant_appReducer s M_LOGOUT = merchant_initialState"

text \<open>The property key JavaScript makes of \<open>token.from\<close>.\<close>

definition from_key :: "token \<Rightarrow> string" where
  "from_key t = (case tok_from t of None \<Rightarrow> ''undefined'' | Some p \<Rightarrow> p)"

text \<open>
  \<open>state.lastCounter\<close> is a plain object: the map holds its own properties, which the
  reducer writes; a key it does not hold is looked up in \<open>Object.prototype\<close>, whose
  members are functions (and, under \<open>__proto__\<close>, the prototype object itself).
\<close>

definition prototype_members :: "string list" where
  "prototype_members =
     [''constructor'', ''__defineGetter__'', ''__defineSetter__'', ''hasOwnProperty'',
      ''__lookupGetter__'', ''__lookupSetter__'', ''isPrototypeOf'', ''propertyIsEnumerable'',
      ''toString'', ''valueOf'', ''__proto__'', ''toLocaleString'']"

datatype js_value = Number int | Object

text \<open>
  \<open>state.lastCounter[token.from] || -1\<close>: the right operand is taken when the left one
  is \<open>undefined\<close> and also when it is the number \<open>0\<close>; an inherited member is truthy and
  is kept.
\<close>

definition lastCounter_or :: "merchant_state \<Rightarrow> token \<Rightarrow> js_value" where
  "lastCounter_or s t =
     (case lastCounter s (from_key t) of
        Some c \<Rightarrow> if c = 0 then Number (- 1) else Number c
      | None \<Rightarrow> if from_key t \<in> set prototype_members then Object else Number (- 1))"

text \<open>
  \<open>token.counter <= lastCounter\<close>: compared with a function or an object, which converts
  to \<open>NaN\<close>, the result is false.
\<close>

definition replayed :: "merchant_state \<Rightarrow> token \<Rightarrow> bool" where
  "replayed s t =
     (case lastCounter_or s t of
        Number c \<Rightarrow> tok_counter t \<le> c
      | Object \<Rightarrow> False)"

record verification =
  valid :: bool
  error :: "string option"

datatype js_exception = Thrown

text \<open>
  The body of the \<open>try\<close> block. \<open>None\<close> as the argument is a \<open>null\<close> or \<open>undefined\<close>
  token, whose destructuring throws. \<open>now\<close> is \<open>Date.now()\<close>.
\<close>

definition verify_try :: "lib \<Rightarrow> merchant_state \<Rightarrow> int \<Rightarrow> token option \<Rightarrow> js_exception + verification" where
  "verify_try L s now tok =
     (case tok of
        None \<Rightarrow> Inl Thrown
      | Some t \<Rightarrow>
     (let message = stringify L (tokenData t);
          messageBytes = decodeUTF8 L message
      in case decodeBase64 L (tok_signature t) of
           None \<Rightarrow> Inl Thrown
         | Some signatureBytes \<Rightarrow>
        (case decodeBase64 L (tok_publicKey t) of
           None \<Rightarrow> Inl Thrown
         | Some publicKeyBytes \<Rightarrow>
        (case detached_verify L messageBytes signatureBytes publicKeyBytes of
           None \<Rightarrow> Inl Thrown
         | Some isValid \<Rightarrow>
             if isValid = False then Inr \<lparr>valid = False, error = Some ''Invalid signature''\<rparr>
             else if tok_amount t > 500
               then Inr \<lparr>valid = False, error = Some ''Amount exceeds limit''\<rparr>
             else if replayed s t
               then Inr \<lparr>valid = False, error = Some ''Duplicate transaction''\<rparr>
             else if now - tok_timestamp t > 60000
               then Inr \<lparr>valid = False, error = Some ''Token expired''\<rparr>
             else Inr \<lparr>valid = True, error = None\<rparr>))))"

definition verifyPaymentToken :: "lib \<Rightarrow> merchant_state \<Rightarrow> int \<Rightarrow> token option \<Rightarrow> verification" where
  "verifyPaymentToken L s now tok =
     (case verify_try L s now tok of
        Inl e \<Rightarrow> \<lparr>valid = False, error = Some ''Verification failed''\<rparr>
      | Inr r \<Rightarrow> r)"

subsection \<open>Wallet application: reducer and token signing\<close>

text \<open>
  The offline balance of the wallet is a JavaScript number that can become \<open>NaN\<close>: the
  reducer subtracts \<open>action.payload.amount\<close>, which is \<open>undefined\<close> when the payload was
  spread from a \<open>null\<close> token. Every comparison with \<open>NaN\<close> is false.
\<close>

datatype js_number = Num rat | NaN

fun js_minus :: "js_number \<Rightarrow> js_number \<Rightarrow> js_number" where
  "js_minus (Num x) (Num y) = Num (double_round (x - y))"
| "js_minus _ _ = NaN"

fun js_greater :: "js_number \<Rightarrow> js_number \<Rightarrow> bool" where
  "js_greater (Num x) (Num y) = (x > y)"
| "js_greater _ _ = False"

record wallet_state =
  user :: "string option"
  isLoggedIn :: bool
  w_balance :: rat
  offlineBalance :: js_number
  keyPair :: "(string \<times> string) option"
  w_transactions :: "token option list"
  pendingSync :: "token option list"
  counter :: int

text \<open>
  The payload of \<open>ADD_TRANSACTION\<close> is \<open>{...token, merchantName, status}\<close> and that of
  \<open>ADD_PENDING_SYNC\<close> is \<open>token\<close>, where \<open>token\<close> may be \<open>null\<close> (\<open>None\<close>); the fields
  \<open>merchantName\<close> and \<open>status\<close>, which no reducer reads, are left out.
\<close>

datatype wallet_action =
    SET_USER string
  | SET_BALANCE rat rat
  | SET_KEYPAIR "string \<times> string"
  | ADD_TRANSACTION "token option"
  | ADD_PENDING_SYNC "token option"
  | CLEAR_PENDING_SYNC
  | INCREMENT_COUNTER
  | LOGOUT

definition initialState :: wallet_state where
  "initialState =
     \<lparr>user = None, isLoggedIn = False, w_balance = 0, offlineBalance = Num 0, keyPair = None,
      w_transactions = [], pendingSync = [], counter = 0\<rparr>"

fun appReducer :: "wallet_state \<Rightarrow> wallet_action \<Rightarrow> wallet_state" where
  "appReducer s (SET_USER u) = s\<lparr>user := Some u, isLoggedIn := True\<rparr>"
| "appReducer s (SET_BALANCE b ob) = s\<lparr>w_balance := b, offlineBalance := Num ob\<rparr>"
| "appReducer s (SET_KEYPAIR kp) = s\<lparr>keyPair := Some kp\<rparr>"
| "appReducer s (ADD_TRANSACTION payload) =
     s\<lparr>w_transactions := payload # w_transactions s,
       offlineBalance := js_minus (offlineBalance s)
                           (case payload of None \<Rightarrow> NaN | Some t \<Rightarrow> Num (tok_amount t))\<rparr>"
| "appReducer s (ADD_PENDING_SYNC payload) = s\<lparr>pendingSync := pendingSync s @ [payload]\<rparr>"
| "appReducer s CLEAR_PENDING_SYNC = s\<lparr>pendingSync := []\<rparr>"
| "appReducer s INCREMENT_COUNTER = s\<lparr>counter := counter s + 1\<rparr>"
| "appReducer s LOGOUT = initialState"

text \<open>
  What one call of \<open>signPaymentToken\<close> reads besides the state: the two readings of
  \<open>Date.now()\<close> and the nine characters cut from \<open>Math.random().toString(36)\<close>.
\<close>

record sign_env =
  now_timestamp :: int
  now_txnId :: string
  random36 :: string

text \<open>
  \<open>signPaymentToken\<close> is a function of the provider component: the \<open>state\<close> it reads is
  the one of the render that created it. It returns the token (or \<open>null\<close>) and the
  actions it dispatched; a dispatch does not change the \<open>state\<close> of the render that is
  running. The key pair is (public key, secret key), both base64 strings.
\<close>

definition signPaymentToken ::
  "lib \<Rightarrow> wallet_state \<Rightarrow> sign_env \<Rightarrow> string \<Rightarrow> rat \<Rightarrow> (js_exception + token option) \<times> wallet_action list" where
  "signPaymentToken L s env merchantId amount =
     (case keyPair s of
        None \<Rightarrow> (Inr None, [])
      | Some (publicKey, secretKeyB64) \<Rightarrow>
          (let tokenData = \<lparr>tok_from = user s, tok_to = merchantId, tok_amount = amount,
                             tok_counter = counter s, tok_timestamp = now_timestamp env,
                             tok_txnId = ''TXN-'' @ now_txnId env @ ''-'' @ random36 env,
                             tok_extra = [], tok_signature = None, tok_publicKey = None\<rparr>;
               message = stringify L tokenData;
               messageBytes = decodeUTF8 L message
           in case decodeBase64 L (Some secretKeyB64) of
                None \<Rightarrow> (Inl Thrown, [])
              | Some secretKey \<Rightarrow>
                  (case detached_sign L messageBytes secretKey of
                     None \<Rightarrow> (Inl Thrown, [])
                   | Some signature \<Rightarrow>
                       (Inr (Some (tokenData\<lparr>tok_signature := Some (encodeBase64 L signature),
                                              tok_publicKey := Some publicKey\<rparr>)),
                        [INCREMENT_COUNTER]))))"

text \<open>
  The state of the next render: the reducer applied, in order, to what was dispatched.
\<close>

definition render :: "wallet_state \<Rightarrow> wallet_action list \<Rightarrow> wallet_state" where
  "render s acts = foldl appReducer s acts"

text \<open>
  The state after the application has started and the user has logged in: the reducer
  starts from \<open>initialState\<close>, \<open>loadOrCreateKeyPair\<close> dispatches the key pair kept in the
  Keychain, the login screen dispatches the user. The counter is kept nowhere else.
\<close>

definition app_started :: "string \<times> string \<Rightarrow> string \<Rightarrow> rat \<Rightarrow> rat \<Rightarrow> wallet_state" where
  "app_started kp phone b ob = render initialState [SET_KEYPAIR kp, SET_USER phone, SET_BALANCE b ob]"

subsection \<open>Wallet application: the payment screen\<close>

text \<open>\<open>String.prototype.includes\<close>.\<close>

fun js_includes :: "string \<Rightarrow> string \<Rightarrow> bool" where
  "js_includes [] sub = (sub = [])"
| "js_includes (c # cs) sub = (take (length sub) (c # cs) = sub \<or> js_includes cs sub)"

text \<open>
  What \<open>BLEService.sendPayment\<close> does: it throws an error with a message, or returns the
  merchant's response object with its fields \<open>success\<close> and \<open>error\<close>.
\<close>

datatype send_result = SendThrows string | Response bool "string option"

text \<open>
  What one run of \<open>handlePay\<close> meets outside the state: the message of the error with which
  \<open>BLEService.connect\<close> rejects (\<open>None\<close> when it connects), the readings of the first call of
  \<open>signPaymentToken\<close>, the message of the error the signing library throws if it throws,
  the outcome of \<open>sendPayment\<close>, whether the user answers the alert with "Save Offline",
  and the readings of the call of \<open>signPaymentToken\<close> in \<open>saveOfflinePayment\<close>.
\<close>

record pay_env =
  connect_error :: "string option"
  first_sign :: sign_env
  sign_failure :: string
  send_result :: send_result
  save_offline :: bool
  second_sign :: sign_env

datatype pay_status = Alerted string | Paid | PayError string | SavedOffline | Uncaught

text \<open>
  The result of a run: the tokens \<open>signPaymentToken\<close> returned, in order; the actions
  dispatched, in order; and how the run ended.
\<close>

record pay_result =
  signed :: "token list"
  dispatched :: "wallet_action list"
  status :: pay_status

text \<open>
  \<open>saveOfflinePayment\<close> runs from the alert's button, outside any \<open>try\<close>. \<open>st\<close> is the
  state of the render whose \<open>handlePay\<close> opened the alert.
\<close>

definition saveOfflinePayment :: "lib \<Rightarrow> wallet_state \<Rightarrow> sign_env \<Rightarrow> string \<Rightarrow> rat \<Rightarrow> pay_result" where
  "saveOfflinePayment L st env merchantId payAmount =
     (case signPaymentToken L st env merchantId payAmount of
        (Inl e, acts) \<Rightarrow> \<lparr>signed = [], dispatched = acts, status = Uncaught\<rparr>
      | (Inr tok, acts) \<Rightarrow>
          \<lparr>signed = (case tok of None \<Rightarrow> [] | Some t \<Rightarrow> [t]),
           dispatched = acts @ [ADD_TRANSACTION tok, ADD_PENDING_SYNC tok],
           status = SavedOffline\<rparr>)"

text \<open>
  The \<open>catch\<close> block of \<open>handlePay\<close>, entered with the error's message after \<open>toks\<close> were
  signed and \<open>acts\<close> dispatched.
\<close>

definition handlePay_catch ::
  "lib \<Rightarrow> wallet_state \<Rightarrow> pay_env \<Rightarrow> string \<Rightarrow> rat \<Rightarrow> token list \<Rightarrow> wallet_action list \<Rightarrow> string
     \<Rightarrow> pay_result" where
  "handlePay_catch L st env merchantId payAmount toks acts message =
     (if (js_includes message ''BLE'' \<or> js_includes message ''connect'') \<and> save_offline env
      then (let r = saveOfflinePayment L st (second_sign env) merchantId payAmount
            in \<lparr>signed = toks @ signed r, dispatched = acts @ dispatched r, status = status r\<rparr>)
      else \<lparr>signed = toks, dispatched = acts, status = PayError message\<rparr>)"

text \<open>
  \<open>handlePay\<close>, in the render with state \<open>st\<close>; \<open>amount\<close> is \<open>parseFloat(amount)\<close>, \<open>None\<close>
  when that is \<open>NaN\<close>.
\<close>

definition handlePay :: "lib \<Rightarrow> wallet_state \<Rightarrow> pay_env \<Rightarrow> string \<Rightarrow> rat option \<Rightarrow> pay_result" where
  "handlePay L st env merchantId amount =
     (case amount of
        None \<Rightarrow> \<lparr>signed = [], dispatched = [], status = Alerted ''Invalid Amount''\<rparr>
      | Some payAmount \<Rightarrow>
          if payAmount \<le> 0
            then \<lparr>signed = [], dispatched = [], status = Alerted ''Invalid Amount''\<rparr>
          else if payAmount > 500
            then \<lparr>signed = [], dispatched = [], status = Alerted ''Limit Exceeded''\<rparr>
          else if js_greater (Num payAmount) (offlineBalance st)
            then \<lparr>signed = [], dispatched = [], status = Alerted ''Insufficient Balance''\<rparr>
          else
            (case connect_error env of
               Some message \<Rightarrow> handlePay_catch L st env merchantId payAmount [] [] message
             | None \<Rightarrow>
                 (case signPaymentToken L st (first_sign env) merchantId payAmount of
                    (Inl e, acts) \<Rightarrow>
                      handlePay_catch L st env merchantId payAmount [] acts (sign_failure env)
                  | (Inr None, acts) \<Rightarrow>
                      handlePay_catch L st env merchantId payAmount [] acts ''Failed to sign token''
                  | (Inr (Some tok), acts) \<Rightarrow>
                      (case send_result env of
                         SendThrows message \<Rightarrow>
                           handlePay_catch L st env merchantId payAmount [tok] acts message
                       | Response ok err \<Rightarrow>
                           if ok
                           then \<lparr>signed = [tok],
                                 dispatched = acts @ [ADD_TRANSACTION (Some tok),
                                                      ADD_PENDING_SYNC (Some tok)],
                                 status = Paid\<rparr>
                           else handlePay_catch L st env merchantId payAmount [tok] acts
                                  (case err of
                                     None \<Rightarrow> ''Payment failed''
                                   | Some m \<Rightarrow> if m = [] then ''Payment failed'' else m)))))"

subsection \<open>Backend: the reconciliation route\<close>

text \<open>One element of the request's \<open>transactions\<close> array, as the handler destructures it.\<close>

record txn =
  txnId :: string
  fromPhone :: string
  toMerchant :: string
  amount :: rat
  counter_of :: int
  signature :: string

record txn_row =
  txn_id :: string
  from_phone :: string
  to_merchant :: string
  row_amount :: rat
  row_counter :: int
  row_signature :: string
  row_status :: string

record database =
  users :: "string \<rightharpoonup> user_row"
  merchants :: "string \<rightharpoonup> merchant_row"
  transactions :: "txn_row list"

text \<open>
  The four statements of the route. \<open>txn_id\<close> is the primary key of \<open>transactions\<close>: an
  \<open>INSERT\<close> of a key that is present fails. An \<open>UPDATE\<close> whose \<open>WHERE\<close> matches no row
  changes nothing and is no error.
\<close>

definition select_txn :: "database \<Rightarrow> string \<Rightarrow> txn_row option" where
  "select_txn d i = find (\<lambda>r. txn_id r = i) (transactions d)"

definition completed_row :: "txn \<Rightarrow> txn_row" where
  "completed_row t =
     \<lparr>txn_id = txnId t, from_phone = fromPhone t, to_merchant = toMerchant t,
      row_amount = amount t, row_counter = counter_of t, row_signature = signature t,
      row_status = ''completed''\<rparr>"

definition insert_txn :: "database \<Rightarrow> txn \<Rightarrow> database option" where
  "insert_txn d t =
     (if txnId t \<in> set (map txn_id (transactions d)) then None
      else Some (d\<lparr>transactions := transactions d @ [completed_row t]\<rparr>))"

definition debit_user :: "database \<Rightarrow> string \<Rightarrow> rat \<Rightarrow> database" where
  "debit_user d phone a =
     (case users d phone of
        None \<Rightarrow> d
      | Some u \<Rightarrow>
          d\<lparr>users := (users d)(phone \<mapsto>
                        u\<lparr>offline_balance := double_round (offline_balance u - a)\<rparr>)\<rparr>)"

definition credit_merchant :: "database \<Rightarrow> string \<Rightarrow> rat \<Rightarrow> database" where
  "credit_merchant d mid a =
     (case merchants d mid of
        None \<Rightarrow> d
      | Some m \<Rightarrow>
          d\<lparr>merchants := (merchants d)(mid \<mapsto>
                            m\<lparr>merchant_balance := double_round (merchant_balance m + a)\<rparr>)\<rparr>)"

text \<open>
  What is outstanding while a request is handled. \<open>forEach\<close> submits one \<open>SELECT\<close> per
  element and returns; every later piece of work is a statement waiting to run on the
  database or a callback waiting to run on the event loop:
  \<^item> \<open>Get t\<close>: the \<open>SELECT\<close> for \<open>t\<close>, submitted;
  \<^item> \<open>GetCb t existing\<close>: its callback, with the row found;
  \<^item> \<open>Insert t\<close>: the \<open>INSERT\<close> for \<open>t\<close>, submitted;
  \<^item> \<open>InsertCb t err\<close>: its callback, with the error flag;
  \<^item> \<open>Debit t\<close>, \<open>Credit t\<close>: the two \<open>UPDATE\<close>s, submitted with no callback;
  \<^item> \<open>UpdateFailed t\<close>: the \<open>error\<close> event of an \<open>UPDATE\<close> that failed, waiting to be
    emitted. The statement has no callback and no listener, so emitting the event throws
    out of the event loop and the process ends.
\<close>

datatype task =
    Get txn
  | GetCb txn "txn_row option"
  | Insert txn
  | InsertCb txn bool
  | Debit txn
  | Credit txn
  | UpdateFailed txn

record sync_response =
  success :: bool
  resp_processed :: nat
  resp_failed :: nat
  resp_results :: "(string \<times> string) list"

datatype http_response = BadRequest string | Json sync_response

text \<open>
  The handler's variables (\<open>processed\<close>, \<open>failed\<close>, \<open>results\<close>, \<open>responseSent\<close>, the
  request's \<open>transactions\<close>), the database, the outstanding work, every response written
  to \<open>res\<close>, and whether the process has ended.
\<close>

record handler =
  db :: database
  batch :: "txn list"
  queue :: "task list"
  processed :: nat
  failed :: nat
  results :: "(string \<times> string) list"
  responseSent :: bool
  sent :: "sync_response list"
  crashed :: bool

definition sendResponse :: "handler \<Rightarrow> handler" where
  "sendResponse h =
     (if responseSent h = False \<and> processed h + failed h = length (batch h)
      then h\<lparr>responseSent := True,
             sent := sent h @ [\<lparr>success = True, resp_processed = processed h,
                                resp_failed = failed h, resp_results = results h\<rparr>]\<rparr>
      else h)"

text \<open>
  Running one piece of outstanding work. \<open>fl\<close> is a storage error injected into the
  statement that runs; callbacks ignore it. A failed \<open>SELECT\<close> hands its callback no row.
  A failed \<open>UPDATE\<close> changes no row and leaves its \<open>error\<close> event to be emitted; when
  the event is emitted the process ends, and with it everything still outstanding: the
  database keeps what has been written, nothing more is written to \<open>res\<close>.
\<close>

fun exec :: "task \<Rightarrow> bool \<Rightarrow> handler \<Rightarrow> handler" where
  "exec (Get t) fl h =
     h\<lparr>queue := queue h @ [GetCb t (if fl then None else select_txn (db h) (txnId t))]\<rparr>"
| "exec (GetCb t existing) fl h =
     (case existing of
        Some row \<Rightarrow>
          sendResponse (h\<lparr>failed := failed h + 1,
                          results := results h @ [(txnId t, ''duplicate'')]\<rparr>)
      | None \<Rightarrow>
          if amount t > 500
          then sendResponse (h\<lparr>failed := failed h + 1,
                               results := results h @ [(txnId t, ''amount_exceeded'')]\<rparr>)
          else h\<lparr>queue := queue h @ [Insert t]\<rparr>)"
| "exec (Insert t) fl h =
     (case (if fl then None else insert_txn (db h) t) of
        None \<Rightarrow> h\<lparr>queue := queue h @ [InsertCb t True]\<rparr>
      | Some d \<Rightarrow> h\<lparr>db := d, queue := queue h @ [InsertCb t False]\<rparr>)"
| "exec (InsertCb t err) fl h =
     (if err
      then sendResponse (h\<lparr>failed := failed h + 1,
                           results := results h @ [(txnId t, ''error'')]\<rparr>)
      else sendResponse (h\<lparr>queue := queue h @ [Debit t, Credit t],
                           processed := processed h + 1,
                           results := results h @ [(txnId t, ''success'')]\<rparr>))"
| "exec (Debit t) fl h =
     (if fl then h\<lparr>queue := queue h @ [UpdateFailed t]\<rparr>
      else h\<lparr>db := debit_user (db h) (fromPhone t) (amount t)\<rparr>)"
| "exec (Credit t) fl h =
     (if fl then h\<lparr>queue := queue h @ [UpdateFailed t]\<rparr>
      else h\<lparr>db := credit_merchant (db h) (toMerchant t) (amount t)\<rparr>)"
| "exec (UpdateFailed t) fl h = h\<lparr>queue := [], crashed := True\<rparr>"

text \<open>
  A schedule is a list of events \<open>(k, fl)\<close>: run the outstanding piece of work at
  position \<open>k mod length queue\<close>, with storage error \<open>fl\<close>. Every order in which
  statements and callbacks can complete is some schedule.
\<close>

type_synonym event = "nat \<times> bool"

definition step :: "event \<Rightarrow> handler \<Rightarrow> handler" where
  "step ev h =
     (case queue h of
        [] \<Rightarrow> h
      | _ # _ \<Rightarrow>
          (let k = fst ev mod length (queue h)
           in exec (queue h ! k) (snd ev)
                (h\<lparr>queue := take k (queue h) @ drop (Suc k) (queue h)\<rparr>)))"

fun run :: "event list \<Rightarrow> handler \<Rightarrow> handler" where
  "run [] h = h"
| "run (ev # evs) h = run evs (step ev h)"

text \<open>The server between requests: the database, and whether the process has ended.\<close>

record server =
  store :: database
  exited :: bool

definition start :: "server \<Rightarrow> txn list \<Rightarrow> handler" where
  "start s ts =
     \<lparr>db = store s, batch = ts, queue = map Get ts, processed = 0, failed = 0,
      results = [], responseSent = False, sent = [], crashed = False\<rparr>"

text \<open>
  The route. \<open>body\<close> is \<open>req.body.transactions\<close> (\<open>None\<close> when it is absent or no array).
  A non-empty batch is run along the given schedule and then to quiescence, always
  taking the oldest outstanding piece of work; eight events per element are enough.
  The result is every response written and the server afterwards. A process that has
  ended answers nothing.
\<close>

definition api_sync :: "event list \<Rightarrow> txn list option \<Rightarrow> server \<Rightarrow> http_response list \<times> server" where
  "api_sync sched body s =
     (if exited s then ([], s)
      else
     (case body of
        None \<Rightarrow> ([BadRequest ''Invalid transaction data''], s)
      | Some [] \<Rightarrow>
          ([Json \<lparr>success = True, resp_processed = 0, resp_failed = 0, resp_results = []\<rparr>], s)
      | Some (t # ts) \<Rightarrow>
          (let h = run (sched @ replicate (8 * length (t # ts)) (0, False)) (start s (t # ts))
           in (map Json (sent h), \<lparr>store = db h, exited = crashed h\<rparr>))))"

text \<open>The process started again on the database as it was left.\<close>

definition restart :: "server \<Rightarrow> server" where
  "restart s = s\<lparr>exited := False\<rparr>"

subsection \<open>A small instance of the library, for concrete runs\<close>

text \<open>
  A byte is a \<open>char\<close>. In this instance the encodings are identities, a string holding
  \<open>!\<close> is not base64, a signature is the message followed by the key, and the public
  key equals the secret key.
\<close>

definition demo_lib :: lib where
  "demo_lib =
     \<lparr>stringify = (\<lambda>t. tok_txnId t @ ''|'' @ tok_to t),
      decodeUTF8 = map (\<lambda>c. of_char c),
      decodeBase64 = (\<lambda>s. case s of
                            None \<Rightarrow> None
                          | Some x \<Rightarrow> if CHR ''!'' \<in> set x then None
                                      else Some (map (\<lambda>c. of_char c) x)),
      encodeBase64 = map (\<lambda>n. char_of n),
      detached_verify = (\<lambda>m sg pk. if pk = [] then None else Some (sg = m @ pk)),
      detached_sign = (\<lambda>m sk. if sk = [] then None else Some (m @ sk))\<rparr>"

definition demo_token :: token where
  "demo_token =
     \<lparr>tok_from = Some ''9800000001'', tok_to = ''M1'', tok_amount = 100, tok_counter = 5,
      tok_timestamp = 1000, tok_txnId = ''T1'', tok_extra = [],
      tok_signature = Some ''T1|M1K'', tok_publicKey = Some ''K''\<rparr>"

text \<open>The wallet of user 9800000001 right after the application has started.\<close>

definition demo_wallet :: wallet_state where
  "demo_wallet = app_started (''K'', ''K'') ''9800000001'' 5000 1000"

definition demo_env :: sign_env where
  "demo_env = \<lparr>now_timestamp = 1000, now_txnId = ''1000'', random36 = ''abcdefghi''\<rparr>"

definition later_env :: sign_env where
  "later_env = \<lparr>now_timestamp = 9000, now_txnId = ''9000'', random36 = ''jklmnopqr''\<rparr>"

text \<open>
  A payment in which the connection is made, the token is signed, the connection drops
  while the token is sent, and the user chooses "Save Offline".
\<close>

definition dropped_pay :: pay_env where
  "dropped_pay =
     \<lparr>connect_error = None, first_sign = demo_env, sign_failure = ''bad secret key size'',
      send_result = SendThrows ''Payment transmission failed: Device was disconnected'',
      save_offline = True, second_sign = later_env\<rparr>"

text \<open>A payment that the merchant accepts.\<close>

definition accepted_pay :: pay_env where
  "accepted_pay =
     \<lparr>connect_error = None, first_sign = demo_env, sign_failure = ''bad secret key size'',
      send_result = Response True None, save_offline = False, second_sign = later_env\<rparr>"

definition demo_users :: "string \<rightharpoonup> user_row" where
  "demo_users = [''9800000001'' \<mapsto> \<lparr>balance = 5000, offline_balance = 1800, public_key = ''K''\<rparr>]"

subsection \<open>Measuring outstanding work\<close>

text \<open>An element is in flight until its result has been pushed onto \<open>results\<close>.\<close>

fun inflight :: "task \<Rightarrow> bool" where
  "inflight (Debit t) = False"
| "inflight (Credit t) = False"
| "inflight (UpdateFailed t) = False"
| "inflight _ = True"

fun is_failure :: "task \<Rightarrow> bool" where
  "is_failure (UpdateFailed t) = True"
| "is_failure _ = False"

text \<open>An upper bound on the events a piece of work can still cause, itself included.\<close>

fun weight :: "task \<Rightarrow> nat" where
  "weight (Get t) = 8"
| "weight (GetCb t r) = 7"
| "weight (Insert t) = 6"
| "weight (InsertCb t e) = 5"
| "weight (Debit t) = 2"
| "weight (Credit t) = 2"
| "weight (UpdateFailed t) = 1"

definition work :: "task list \<Rightarrow> nat" where
  "work q = sum_list (map weight q)"

fun task_txn :: "task \<Rightarrow> txn" where
  "task_txn (Get t) = t"
| "task_txn (GetCb t r) = t"
| "task_txn (Insert t) = t"
| "task_txn (InsertCb t e) = t"
| "task_txn (Debit t) = t"
| "task_txn (Credit t) = t"
| "task_txn (UpdateFailed t) = t"

definition recorded :: "database \<Rightarrow> string set" where
  "recorded d = set (map txn_id (transactions d))"

text \<open>The statuses reported for token \<open>i\<close>, in the order they were pushed.\<close>

definition statuses :: "string \<Rightarrow> (string \<times> string) list \<Rightarrow> string list" where
  "statuses i rs = map snd (filter (\<lambda>r. fst r = i) rs)"

definition failure_free :: "event list \<Rightarrow> bool" where
  "failure_free sched = list_all (\<lambda>ev. snd ev = False) sched"

definition demo_txn :: txn where
  "demo_txn = \<lparr>txnId = ''T1'', fromPhone = ''9800000001'', toMerchant = ''M1'', amount = 100,
               counter_of = 5, signature = ''T1|M1K''\<rparr>"

definition demo_db :: database where
  "demo_db =
     \<lparr>users = [''9800000001'' \<mapsto> \<lparr>balance = 5000, offline_balance = 1800, public_key = ''K''\<rparr>],
      merchants = [''M1'' \<mapsto> \<lparr>merchant_balance = 0, merchant_public_key = ''MK''\<rparr>],
      transactions = []\<rparr>"

definition demo_server :: server where
  "demo_server = \<lparr>store = demo_db, exited = False\<rparr>"

subsection \<open>Invariants of the reconciliation handler\<close>

text \<open>
  While no \<open>UPDATE\<close> has failed, the handler's counters agree with the work outstanding:
  every element of the batch is either in flight or counted in \<open>processed + failed\<close> with
  one entry in \<open>results\<close>; the response has been written exactly when all are counted, and
  it is the only one.
\<close>

definition counted :: "handler \<Rightarrow> bool" where
  "counted h =
     (processed h + failed h + length (filter inflight (queue h)) = length (batch h)
      \<and> length (results h) = processed h + failed h
      \<and> responseSent h = (processed h + failed h = length (batch h))
      \<and> sent h = (if responseSent h
                   then [\<lparr>success = True, resp_processed = processed h,
                          resp_failed = failed h, resp_results = results h\<rparr>]
                   else [])
      \<and> list_all (\<lambda>r. snd r \<in> set [''duplicate'', ''amount_exceeded'', ''error'', ''success''])
           (results h)
      \<and> crashed h = False
      \<and> filter is_failure (queue h) = [])"

text \<open>A lookup is a \<open>SELECT\<close> or the callback of one that found a row.\<close>

fun is_lookup :: "task \<Rightarrow> bool" where
  "is_lookup (Get t) = True"
| "is_lookup (GetCb t r) = (r \<noteq> None)"
| "is_lookup _ = False"

text \<open>
  What holds of a token id \<open>i\<close> that is recorded when the request arrives, as long as no
  statement fails: its elements only ever look the record up, and each is answered
  \<open>duplicate\<close>.
\<close>

definition resubmitted :: "string \<Rightarrow> handler \<Rightarrow> bool" where
  "resubmitted i h =
     (i \<in> recorded (db h)
      \<and> filter is_failure (queue h) = []
      \<and> list_all is_lookup (filter (\<lambda>t. txnId (task_txn t) = i) (queue h))
      \<and> list_all (\<lambda>x. x = ''duplicate'') (statuses i (results h))
      \<and> length (statuses i (results h))
            + length (filter (\<lambda>t. txnId (task_txn t) = i) (queue h))
          = length (filter (\<lambda>t. txnId t = i) (batch h)))"

definition untouched :: "database \<Rightarrow> handler \<Rightarrow> bool" where
  "untouched d h =
     (db h = d \<and> crashed h = False \<and> list_all is_lookup (queue h)
      \<and> list_all (\<lambda>t. txnId (task_txn t) \<in> recorded d) (queue h))"

text \<open>The schedule that always runs the oldest outstanding piece of work, for one element.\<close>

definition fifo6 :: "event list" where
  "fifo6 = [(0, False), (0, False), (0, False), (0, False), (0, False), (0, False)]"

text \<open>The demonstration server after the token \<open>T1\<close> has been reconciled once.\<close>

definition demo_server_synced :: server where
  "demo_server_synced =
     \<lparr>store = \<lparr>users = [''9800000001'' \<mapsto>
                         \<lparr>balance = 5000, offline_balance = 1700, public_key = ''K''\<rparr>],
               merchants = [''M1'' \<mapsto> \<lparr>merchant_balance = 100, merchant_public_key = ''MK''\<rparr>],
               transactions = [completed_row demo_txn]\<rparr>,
      exited = False\<rparr>"

text \<open>
  The schedule of one element, oldest work first, in which the \<open>UPDATE users\<close> statement
  (the fifth event) reports a storage error.
\<close>

definition fifo6_debit_fails :: "event list" where
  "fifo6_debit_fails = [(0, False), (0, False), (0, False), (0, False), (0, True), (0, False)]"

text \<open>
  Two more tokens of the payer of \<open>T1\<close>: one whose counter 3 lies below the recorded
  counter 5, one whose signature field is not a signature at all.
\<close>

definition late_txn :: txn where
  "late_txn = \<lparr>txnId = ''T2'', fromPhone = ''9800000001'', toMerchant = ''M1'', amount = 100,
               counter_of = 3, signature = ''T2|M1K''\<rparr>"

definition forged_txn :: txn where
  "forged_txn = \<lparr>txnId = ''T3'', fromPhone = ''9800000001'', toMerchant = ''M1'', amount = 100,
                 counter_of = 6, signature = ''forged''\<rparr>"

text \<open>A token whose payer is not in the users table.\<close>

definition stranger_txn :: txn where
  "stranger_txn = \<lparr>txnId = ''T4'', fromPhone = ''9811111111'', toMerchant = ''M1'', amount = 100,
                   counter_of = 1, signature = ''T4|M1K''\<rparr>"

text \<open>
  A schedule for a batch of two elements: the first element is looked up, inserted and
  counted while the \<open>SELECT\<close> of the second is still outstanding; then its \<open>UPDATE users\<close>
  reports a storage error (the fifth event), and the error event is emitted.
\<close>

definition first_update_fails :: "event list" where
  "first_update_fails = [(0, False), (1, False), (1, False), (1, False), (1, True), (2, False)]"

section \<open>Properties\<close>

subsection \<open>Double-precision arithmetic on the values used below\<close>

lemma double_round_values:
  "double_round 100 = 100"
  "double_round 200 = 200"
  "double_round 900 = 900"
  "double_round 1600 = 1600"
  "double_round 1700 = 1700"
  "double_round 2000 = 2000"
  "double_round 2200 = 2200"
  "double_round 4600 = 4600"
  "double_round 4800 = 4800"
  by code_simp+

text \<open>
  A tenth is no double, and a sum of doubles need not be the exact sum: added to 2000, an
  amount of \<open>10^-13\<close> is rounded away.
\<close>

lemma double_round_inexact:
  "double_round (1 / 10) = 3602879701896397 / 36028797018963968"
  "double_round (2000 + 1 / 10 ^ 13) = 2000"
  "double_round (5000 - 1 / 10 ^ 13) = 5000"
  by code_simp+

subsection \<open>Load offline balance\<close>

text \<open>
  With 2000 loaded, a request for the double nearest to \<open>10^-13\<close> passes the capacity
  check, because the sum is rounded to 2000; it is answered 200 and both balances stay as
  they were.
\<close>

lemma load_balance_rounded:
  "0 < double_round (1 / 10 ^ 13)"
  "fst (load_balance UserAccount ''9800000001'' (Some (double_round (1 / 10 ^ 13))) False False
          [''9800000001'' \<mapsto> \<lparr>balance = 5000, offline_balance = 2000, public_key = ''K''\<rparr>]) =
     (200, BalanceLoaded 5000 2000)"
  "snd (load_balance UserAccount ''9800000001'' (Some (double_round (1 / 10 ^ 13))) False False
          [''9800000001'' \<mapsto> \<lparr>balance = 5000, offline_balance = 2000, public_key = ''K''\<rparr>])
       ''9800000001'' =
     Some \<lparr>balance = 5000, offline_balance = 2000, public_key = ''K''\<rparr>"
  by code_simp+

text \<open>
  C9, as amended. Take a user with main balance \<open>B\<close> and offline balance \<open>O\<close>, the storage
  working, and an amount \<open>a\<close> for which the double-precision results \<open>O + a\<close>, \<open>B - a\<close> and
  \<open>2000 - O\<close> are exact (as they are for whole numbers of this size). A load of \<open>a\<close>
  succeeds exactly when \<open>0 < a\<close>, \<open>a \<le> 2000\<close>, \<open>O + a \<le> 2000\<close> and \<open>a \<le> B\<close>; it then
  moves \<open>a\<close> from the main to the offline balance, and a rejected request changes nothing.
  The remaining capacity \<open>2000 - O\<close> is reported when \<open>0 < a \<le> 2000\<close> and \<open>O + a\<close> exceeds
  2000; an amount above 2000 is rejected by the earlier guard with the fixed message,
  whatever \<open>O\<close> is.
\<close>

theorem load_balance_spec:
  assumes "tbl phone = Some u"
    and "double_round (offline_balance u + a) = offline_balance u + a"
    and "double_round (balance u - a) = balance u - a"
    and "double_round (2000 - offline_balance u) = 2000 - offline_balance u"
  shows "(fst (fst (load_balance UserAccount phone (Some a) False False tbl)) = 200
            \<longleftrightarrow> 0 < a \<and> a \<le> 2000 \<and> offline_balance u + a \<le> 2000 \<and> a \<le> balance u)
       \<and> (0 < a \<and> a \<le> 2000 \<and> offline_balance u + a \<le> 2000 \<and> a \<le> balance u \<longrightarrow>
            load_balance UserAccount phone (Some a) False False tbl =
              ((200, BalanceLoaded (balance u - a) (offline_balance u + a)),
               tbl(phone \<mapsto> u\<lparr>balance := balance u - a,
                                 offline_balance := offline_balance u + a\<rparr>)))
       \<and> (fst (fst (load_balance UserAccount phone (Some a) False False tbl)) \<noteq> 200 \<longrightarrow>
            snd (load_balance UserAccount phone (Some a) False False tbl) = tbl)
       \<and> (0 < a \<and> a \<le> 2000 \<and> 2000 < offline_balance u + a \<longrightarrow>
            load_balance UserAccount phone (Some a) False False tbl =
              ((400, CanOnlyLoadMore (2000 - offline_balance u)), tbl))
       \<and> (2000 < a \<longrightarrow>
            load_balance UserAccount phone (Some a) False False tbl =
              ((400, ErrorMessage ''Maximum offline balance is 2000''), tbl))"
  using assms by (auto simp: load_balance_def)

text \<open>
  The theorem at the spec's scenario: with 1800 loaded, a request of 400 is rejected with
  "can only load 200 more", and a request of 200 succeeds.
\<close>

theorem load_balance_spec_witness:
  "demo_users ''9800000001'' = Some \<lparr>balance = 5000, offline_balance = 1800, public_key = ''K''\<rparr>
   \<and> double_round (1800 + 400) = 1800 + 400
   \<and> double_round (5000 - 400) = 5000 - 400
   \<and> double_round (1800 + 200) = 1800 + 200
   \<and> double_round (5000 - 200) = 5000 - 200
   \<and> double_round (2000 - 1800) = 2000 - 1800
   \<and> load_balance UserAccount ''9800000001'' (Some 400) False False demo_users =
       ((400, CanOnlyLoadMore 200), demo_users)
   \<and> fst (load_balance UserAccount ''9800000001'' (Some 200) False False demo_users) =
       (200, BalanceLoaded 4800 2000)"
proof -
  have h: "demo_users ''9800000001'' =
      Some \<lparr>balance = 5000, offline_balance = 1800, public_key = ''K''\<rparr>"
    by (simp add: demo_users_def)
  have e: "double_round (1800 + 400) = 1800 + 400" "double_round (5000 - 400) = 5000 - 400"
    "double_round (1800 + 200) = 1800 + 200" "double_round (5000 - 200) = 5000 - 200"
    "double_round (2000 - 1800) = 2000 - 1800"
    by (simp_all add: double_round_values)
  show ?thesis
    using h e
      load_balance_spec [where tbl = demo_users and phone = "''9800000001''" and a = 400
        and u = "\<lparr>balance = 5000, offline_balance = 1800, public_key = ''K''\<rparr>"]
      load_balance_spec [where tbl = demo_users and phone = "''9800000001''" and a = 200
        and u = "\<lparr>balance = 5000, offline_balance = 1800, public_key = ''K''\<rparr>"]
    by simp
qed

text \<open>
  C9 as stated fails: with 1800 loaded, a request of 2001 pushes the offline balance over
  2000, yet the answer is the fixed message and not the remaining capacity of 200.
\<close>

theorem load_balance_over_cap_counterexample:
  "(2000::rat) < 1800 + 2001
   \<and> load_balance UserAccount ''9800000001'' (Some 2001) False False demo_users =
       ((400, ErrorMessage ''Maximum offline balance is 2000''), demo_users)"
  by (simp add: load_balance_def demo_users_def)

subsection \<open>Token verification on the merchant side\<close>

lemma verify_checks:
  assumes "decodeBase64 L (tok_signature t) = Some sg"
    and "decodeBase64 L (tok_publicKey t) = Some pk"
    and "detached_verify L (decodeUTF8 L (stringify L (tokenData t))) sg pk = Some ok"
  shows "verifyPaymentToken L s now (Some t) =
     (if ok = False then \<lparr>valid = False, error = Some ''Invalid signature''\<rparr>
      else if tok_amount t > 500 then \<lparr>valid = False, error = Some ''Amount exceeds limit''\<rparr>
      else if replayed s t then \<lparr>valid = False, error = Some ''Duplicate transaction''\<rparr>
      else if now - tok_timestamp t > 60000 then \<lparr>valid = False, error = Some ''Token expired''\<rparr>
      else \<lparr>valid = True, error = None\<rparr>)"
  using assms by (simp add: verifyPaymentToken_def verify_try_def)

lemma demo_token_decodes:
  "decodeBase64 demo_lib (tok_signature demo_token) = Some (map (\<lambda>c. of_char c) ''T1|M1K'')"
  "decodeBase64 demo_lib (tok_publicKey demo_token) = Some (map (\<lambda>c. of_char c) ''K'')"
  by (simp_all add: demo_lib_def demo_token_def)

text \<open>
  What the counter check amounts to: a counter recorded for the payer is compared, with a
  recorded 0 read as -1; with none recorded the token's counter is compared with -1,
  unless the payer's id names a member of \<open>Object.prototype\<close>, when nothing counts as a
  replay.
\<close>

lemma replayed_iff:
  "replayed s t =
     (case lastCounter s (from_key t) of
        Some c \<Rightarrow> tok_counter t \<le> (if c = 0 then - 1 else c)
      | None \<Rightarrow> from_key t \<notin> set prototype_members \<and> tok_counter t \<le> - 1)"
  by (simp add: replayed_def lastCounter_or_def split: option.splits)

text \<open>
  With no counter recorded, a token with counter -1 is a duplicate for an ordinary payer
  id and is accepted for the payer id \<open>constructor\<close>.
\<close>

lemma inherited_member_lookup:
  "verifyPaymentToken demo_lib merchant_initialState 2000
      (Some (demo_token\<lparr>tok_counter := - 1\<rparr>)) =
     \<lparr>valid = False, error = Some ''Duplicate transaction''\<rparr>"
  "verifyPaymentToken demo_lib merchant_initialState 2000
      (Some (demo_token\<lparr>tok_from := Some ''constructor'', tok_counter := - 1\<rparr>)) =
     \<lparr>valid = True, error = None\<rparr>"
  by (simp_all add: verifyPaymentToken_def verify_try_def demo_lib_def demo_token_def
        tokenData_def replayed_def lastCounter_or_def from_key_def merchant_initialState_def
        prototype_members_def)

text \<open>
  C10. \<open>verifyPaymentToken\<close> always returns a result. Whenever the \<open>try\<close> block throws (a
  \<open>null\<close> token; a signature or public key that is missing or does not decode; a
  verification call that throws) the result is \<open>valid: false\<close> with the reason
  "Verification failed"; every result with \<open>valid: false\<close> carries a non-empty reason.
\<close>

theorem verifyPaymentToken_total:
  "(tok = None \<or> decodeBase64 L (tok_signature (the tok)) = None
      \<or> decodeBase64 L (tok_publicKey (the tok)) = None
      \<or> (\<exists>sg pk. decodeBase64 L (tok_signature (the tok)) = Some sg
            \<and> decodeBase64 L (tok_publicKey (the tok)) = Some pk
            \<and> detached_verify L (decodeUTF8 L (stringify L (tokenData (the tok)))) sg pk = None)
        \<longrightarrow> verifyPaymentToken L s now tok = \<lparr>valid = False, error = Some ''Verification failed''\<rparr>)
   \<and> (verify_try L s now tok = Inl e \<longrightarrow>
        verifyPaymentToken L s now tok = \<lparr>valid = False, error = Some ''Verification failed''\<rparr>)
   \<and> (valid (verifyPaymentToken L s now tok) = False \<longrightarrow>
        (\<exists>reason. error (verifyPaymentToken L s now tok) = Some reason \<and> reason \<noteq> []))
   \<and> (valid (verifyPaymentToken L s now tok) = True \<longrightarrow>
        verifyPaymentToken L s now tok = \<lparr>valid = True, error = None\<rparr>)"
  by (auto simp: verifyPaymentToken_def verify_try_def Let_def
           split: option.splits sum.splits if_splits)

text \<open>
  The theorem at a token whose signature field is not base64 and at one whose public key
  is missing: both are answered with "Verification failed".
\<close>

theorem verifyPaymentToken_total_witness:
  "decodeBase64 demo_lib (tok_signature (the (Some (demo_token\<lparr>tok_signature := Some ''!!''\<rparr>)))) = None
   \<and> verifyPaymentToken demo_lib merchant_initialState 2000
        (Some (demo_token\<lparr>tok_signature := Some ''!!''\<rparr>)) =
       \<lparr>valid = False, error = Some ''Verification failed''\<rparr>
   \<and> decodeBase64 demo_lib (tok_publicKey (the (Some (demo_token\<lparr>tok_publicKey := None\<rparr>)))) = None
   \<and> verifyPaymentToken demo_lib merchant_initialState 2000
        (Some (demo_token\<lparr>tok_publicKey := None\<rparr>)) =
       \<lparr>valid = False, error = Some ''Verification failed''\<rparr>"
proof -
  have h1: "decodeBase64 demo_lib
      (tok_signature (the (Some (demo_token\<lparr>tok_signature := Some ''!!''\<rparr>)))) = None"
    by (simp add: demo_lib_def)
  have h2: "decodeBase64 demo_lib
      (tok_publicKey (the (Some (demo_token\<lparr>tok_publicKey := None\<rparr>)))) = None"
    by (simp add: demo_lib_def)
  show ?thesis
    using h1 h2
      verifyPaymentToken_total [of "Some (demo_token\<lparr>tok_signature := Some ''!!''\<rparr>)"
        demo_lib merchant_initialState 2000]
      verifyPaymentToken_total [of "Some (demo_token\<lparr>tok_publicKey := None\<rparr>)"
        demo_lib merchant_initialState 2000]
    by simp
qed

text \<open>
  C6, as amended. After the signature check the policy checks run in the order amount cap
  ("Amount exceeds limit"), replay counter ("Duplicate transaction"), freshness ("Token
  expired"), each reached only when the earlier ones passed; a token that passes all three
  is accepted. The replay check is \<open>replayed\<close>, the code's comparison of the token's
  counter with the payer's entry in \<open>lastCounter\<close>.
\<close>

theorem verify_check_order:
  assumes "decodeBase64 L (tok_signature t) = Some sg"
    and "decodeBase64 L (tok_publicKey t) = Some pk"
    and "detached_verify L (decodeUTF8 L (stringify L (tokenData t))) sg pk = Some True"
  shows "(500 < tok_amount t \<longrightarrow>
            verifyPaymentToken L s now (Some t) =
              \<lparr>valid = False, error = Some ''Amount exceeds limit''\<rparr>)
       \<and> (tok_amount t \<le> 500 \<and> replayed s t \<longrightarrow>
            verifyPaymentToken L s now (Some t) =
              \<lparr>valid = False, error = Some ''Duplicate transaction''\<rparr>)
       \<and> (tok_amount t \<le> 500 \<and> replayed s t = False
            \<and> 60000 < now - tok_timestamp t \<longrightarrow>
            verifyPaymentToken L s now (Some t) =
              \<lparr>valid = False, error = Some ''Token expired''\<rparr>)
       \<and> (tok_amount t \<le> 500 \<and> replayed s t = False
            \<and> now - tok_timestamp t \<le> 60000 \<longrightarrow>
            verifyPaymentToken L s now (Some t) = \<lparr>valid = True, error = None\<rparr>)"
  using verify_checks [OF assms, of s now] by auto

text \<open>
  The theorem at tokens with a good signature: one that is stale and within the cap
  ("Token expired"), one that is fresh and within the cap (accepted), and one that is
  fresh, within the cap and presented after counter 7 was recorded for its payer
  ("Duplicate transaction").
\<close>

theorem verify_check_order_witness:
  "decodeBase64 demo_lib (tok_signature demo_token) = Some (map (\<lambda>c. of_char c) ''T1|M1K'')
   \<and> decodeBase64 demo_lib (tok_publicKey demo_token) = Some (map (\<lambda>c. of_char c) ''K'')
   \<and> detached_verify demo_lib (decodeUTF8 demo_lib (stringify demo_lib (tokenData demo_token)))
        (map (\<lambda>c. of_char c) ''T1|M1K'') (map (\<lambda>c. of_char c) ''K'') = Some True
   \<and> verifyPaymentToken demo_lib merchant_initialState 100000 (Some demo_token) =
       \<lparr>valid = False, error = Some ''Token expired''\<rparr>
   \<and> verifyPaymentToken demo_lib merchant_initialState 2000 (Some demo_token) =
       \<lparr>valid = True, error = None\<rparr>
   \<and> verifyPaymentToken demo_lib
        (merchant_appReducer merchant_initialState (UPDATE_COUNTER ''9800000001'' 7)) 2000
        (Some demo_token) =
       \<lparr>valid = False, error = Some ''Duplicate transaction''\<rparr>"
proof -
  have h1: "decodeBase64 demo_lib (tok_signature demo_token) = Some (map (\<lambda>c. of_char c) ''T1|M1K'')"
    and h2: "decodeBase64 demo_lib (tok_publicKey demo_token) = Some (map (\<lambda>c. of_char c) ''K'')"
    by (rule demo_token_decodes)+
  have h3: "detached_verify demo_lib (decodeUTF8 demo_lib (stringify demo_lib (tokenData demo_token)))
        (map (\<lambda>c. of_char c) ''T1|M1K'') (map (\<lambda>c. of_char c) ''K'') = Some True"
    by (simp add: demo_lib_def demo_token_def tokenData_def)
  have c: "tok_amount demo_token \<le> 500"
    "replayed merchant_initialState demo_token = False"
    "replayed (merchant_appReducer merchant_initialState (UPDATE_COUNTER ''9800000001'' 7))
       demo_token = True"
    "tok_timestamp demo_token = 1000"
    by (simp_all add: demo_token_def replayed_def lastCounter_or_def from_key_def
          merchant_initialState_def prototype_members_def)
  show ?thesis
    using h1 h2 h3 c
      verify_check_order [OF h1 h2 h3, of merchant_initialState 100000]
      verify_check_order [OF h1 h2 h3, of merchant_initialState 2000]
      verify_check_order [OF h1 h2 h3,
        of "merchant_appReducer merchant_initialState (UPDATE_COUNTER ''9800000001'' 7)" 2000]
    by simp
qed

text \<open>
  C6 as stated fails: a token with a good signature that is both stale and over the cap is
  rejected with "Amount exceeds limit", not with "Token expired".
\<close>

theorem stale_and_over_cap_counterexample:
  "60000 < (100000::int) - tok_timestamp (demo_token\<lparr>tok_amount := 600\<rparr>)
   \<and> 500 < tok_amount (demo_token\<lparr>tok_amount := 600\<rparr>)
   \<and> verifyPaymentToken demo_lib merchant_initialState 100000
        (Some (demo_token\<lparr>tok_amount := 600\<rparr>)) =
       \<lparr>valid = False, error = Some ''Amount exceeds limit''\<rparr>"
  by (simp add: verifyPaymentToken_def verify_try_def demo_lib_def demo_token_def tokenData_def)

subsection \<open>Token signing on the wallet side\<close>

text \<open>
  The counter a call stamps is read from the state of the render the call belongs to: two
  calls in one render stamp the same counter, whatever the first one dispatched.
\<close>

lemma signPaymentToken_snapshot:
  assumes "signPaymentToken L s env1 m1 a1 = (Inr (Some t1), acts1)"
    and "signPaymentToken L s env2 m2 a2 = (Inr (Some t2), acts2)"
  shows "tok_counter t1 = tok_counter t2"
  using assms
  by (auto simp: signPaymentToken_def Let_def split: option.splits prod.splits)

text \<open>
  A call that returns a token stamps the counter of its render and dispatches one
  increment, so that the next render reads the counter one higher.
\<close>

lemma signPaymentToken_counter:
  assumes "signPaymentToken L s env m a = (Inr (Some t), acts)"
  shows "tok_counter t = counter s \<and> acts = [INCREMENT_COUNTER]
       \<and> counter (render s acts) = counter s + 1"
  using assms
  by (auto simp: signPaymentToken_def render_def Let_def split: option.splits prod.splits)

text \<open>
  A token signed by the wallet verifies on the merchant side when the library's signing
  and verification agree on the key pair and the policy checks pass.
\<close>

lemma signed_token_verifies:
  assumes sign: "signPaymentToken L w env merchantId a = (Inr (Some t), acts)"
    and keys: "keyPair w = Some (pk64, sk64)"
    and dec: "decodeBase64 L (Some sk64) = Some sk" "decodeBase64 L (Some pk64) = Some pk"
    and enc: "\<And>sg. decodeBase64 L (Some (encodeBase64 L sg)) = Some sg"
    and ok: "\<And>m sg. detached_sign L m sk = Some sg \<Longrightarrow> detached_verify L m sg pk = Some True"
    and policy: "a \<le> 500" "replayed m t = False" "now - now_timestamp env \<le> 60000"
  shows "verifyPaymentToken L m now (Some t) = \<lparr>valid = True, error = None\<rparr>"
proof -
  from sign keys dec(1) obtain sg where
    sg: "detached_sign L (decodeUTF8 L (stringify L (tokenData t))) sk = Some sg"
    and t: "tok_signature t = Some (encodeBase64 L sg)" "tok_publicKey t = Some pk64"
      "tok_amount t = a" "tok_counter t = counter w" "tok_timestamp t = now_timestamp env"
    by (auto simp: signPaymentToken_def Let_def tokenData_def split: option.splits)
  from verify_checks [of L t sg pk True m now] t enc dec(2) ok [OF sg] policy
  show ?thesis by simp
qed

lemma demo_wallet_state:
  "demo_wallet =
     \<lparr>user = Some ''9800000001'', isLoggedIn = True, w_balance = 5000,
      offlineBalance = Num 1000, keyPair = Some (''K'', ''K''), w_transactions = [],
      pendingSync = [], counter = 0\<rparr>"
  by (simp add: demo_wallet_def app_started_def render_def initialState_def)

lemma js_includes_connect:
  "js_includes ''Payment transmission failed: Device was disconnected'' ''connect''"
  by simp

text \<open>
  A payment the merchant accepts signs one token; the render that follows reads the
  counter one higher, and a payment made from it carries the next counter.
\<close>

lemma handlePay_accepted:
  "map tok_counter (signed (handlePay demo_lib demo_wallet accepted_pay ''M1'' (Some 100))) = [0]"
  "status (handlePay demo_lib demo_wallet accepted_pay ''M1'' (Some 100)) = Paid"
  "counter (render demo_wallet
      (dispatched (handlePay demo_lib demo_wallet accepted_pay ''M1'' (Some 100)))) = 1"
  "offlineBalance (render demo_wallet
      (dispatched (handlePay demo_lib demo_wallet accepted_pay ''M1'' (Some 100)))) = Num 900"
  "map tok_counter (signed (handlePay demo_lib
      (render demo_wallet (dispatched (handlePay demo_lib demo_wallet accepted_pay ''M1'' (Some 100))))
      accepted_pay ''M1'' (Some 100))) = [1]"
  by (simp_all add: handlePay_def handlePay_catch_def saveOfflinePayment_def signPaymentToken_def
        demo_wallet_state accepted_pay_def demo_env_def later_env_def demo_lib_def render_def
        double_round_values)

text \<open>
  C7. \<open>handlePay\<close> signs a token and, when sending it fails with a connection error and
  the user chooses "Save Offline", \<open>saveOfflinePayment\<close> signs a second one. Both calls of
  \<open>signPaymentToken\<close> belong to the render in which the button was pressed, so both read
  the same \<open>state.counter\<close>: the two tokens, of one payer and one key, carry the counter 0,
  and two increments are dispatched. The counter is also lost when the application
  restarts: after a payment with counter 0 the next render holds counter 1, yet the
  application started again signs with counter 0 under the same key.
\<close>

theorem handlePay_repeats_counter:
  "map tok_counter (signed (handlePay demo_lib demo_wallet dropped_pay ''M1'' (Some 100))) = [0, 0]
   \<and> map tok_from (signed (handlePay demo_lib demo_wallet dropped_pay ''M1'' (Some 100))) =
       [Some ''9800000001'', Some ''9800000001'']
   \<and> map tok_publicKey (signed (handlePay demo_lib demo_wallet dropped_pay ''M1'' (Some 100))) =
       [Some ''K'', Some ''K'']
   \<and> map tok_txnId (signed (handlePay demo_lib demo_wallet dropped_pay ''M1'' (Some 100))) =
       [''TXN-1000-abcdefghi'', ''TXN-9000-jklmnopqr'']
   \<and> status (handlePay demo_lib demo_wallet dropped_pay ''M1'' (Some 100)) = SavedOffline
   \<and> counter (render demo_wallet
        (dispatched (handlePay demo_lib demo_wallet dropped_pay ''M1'' (Some 100)))) = 2
   \<and> map tok_counter (signed (handlePay demo_lib demo_wallet accepted_pay ''M1'' (Some 100))) = [0]
   \<and> counter (render demo_wallet
        (dispatched (handlePay demo_lib demo_wallet accepted_pay ''M1'' (Some 100)))) = 1
   \<and> counter (app_started (''K'', ''K'') ''9800000001'' 5000 900) = 0
   \<and> map tok_counter (signed (handlePay demo_lib (app_started (''K'', ''K'') ''9800000001'' 5000 900)
        accepted_pay ''M1'' (Some 100))) = [0]
   \<and> map tok_publicKey (signed (handlePay demo_lib (app_started (''K'', ''K'') ''9800000001'' 5000 900)
        accepted_pay ''M1'' (Some 100))) = [Some ''K'']"
  by (simp add: handlePay_def handlePay_catch_def saveOfflinePayment_def signPaymentToken_def
        demo_wallet_state dropped_pay_def accepted_pay_def demo_env_def later_env_def
        demo_lib_def render_def app_started_def initialState_def double_round_values)

subsection \<open>Reconciliation: schedules\<close>

lemma step_quiescent: "queue h = [] \<Longrightarrow> step ev h = h"
  by (simp add: step_def)

text \<open>Every step takes one piece of work out of the queue and runs it.\<close>

lemma step_decomp:
  assumes "queue h \<noteq> []"
  shows "\<exists>xs t ys. queue h = xs @ t # ys
           \<and> step ev h = exec t (snd ev) (h\<lparr>queue := xs @ ys\<rparr>)"
proof -
  let ?k = "fst ev mod length (queue h)"
  from assms have k: "?k < length (queue h)" by simp
  have "queue h = take ?k (queue h) @ (queue h ! ?k) # drop (Suc ?k) (queue h)"
    by (rule id_take_nth_drop [OF k])
  moreover from assms have "step ev h =
      exec (queue h ! ?k) (snd ev) (h\<lparr>queue := take ?k (queue h) @ drop (Suc ?k) (queue h)\<rparr>)"
    by (cases "queue h") (simp_all add: step_def Let_def)
  ultimately show ?thesis by blast
qed

lemma step_head: "queue h = t # q \<Longrightarrow> step (0, fl) h = exec t fl (h\<lparr>queue := q\<rparr>)"
  by (simp add: step_def)

lemma step_second:
  "queue h = a # t # q \<Longrightarrow> step (Suc 0, fl) h = exec t fl (h\<lparr>queue := a # q\<rparr>)"
  by (simp add: step_def)

lemma step_third:
  "queue h = a # b # t # q \<Longrightarrow> step (2, fl) h = exec t fl (h\<lparr>queue := a # b # q\<rparr>)"
  by (simp add: step_def)

lemma run_append: "run (a @ b) h = run b (run a h)"
  by (induction a arbitrary: h) simp_all

lemma run_quiescent: "queue h = [] \<Longrightarrow> run evs h = h"
  by (induction evs arbitrary: h) (simp_all add: step_quiescent)

lemma queue_sendResponse [simp]: "queue (sendResponse h) = queue h"
  and db_sendResponse [simp]: "db (sendResponse h) = db h"
  and crashed_sendResponse [simp]: "crashed (sendResponse h) = crashed h"
  and batch_sendResponse [simp]: "batch (sendResponse h) = batch h"
  and results_sendResponse [simp]: "results (sendResponse h) = results h"
  and processed_sendResponse [simp]: "processed (sendResponse h) = processed h"
  and failed_sendResponse [simp]: "failed (sendResponse h) = failed h"
  by (simp_all add: sendResponse_def)

lemma work_append [simp]: "work (xs @ ys) = work xs + work ys"
  and work_Cons [simp]: "work (t # ys) = weight t + work ys"
  and work_Nil [simp]: "work [] = 0"
  by (simp_all add: work_def)

lemma exec_work:
  "work (queue (exec t fl (h\<lparr>queue := xs @ ys\<rparr>))) < work (xs @ t # ys)"
  by (cases t) (auto split: option.splits)

lemma step_work: "queue h \<noteq> [] \<Longrightarrow> work (queue (step ev h)) < work (queue h)"
  using step_decomp [of h ev] exec_work by fastforce

lemma work_zero: "work q = 0 \<Longrightarrow> q = []"
  by (cases q; cases "hd q") auto

text \<open>A schedule at least as long as the outstanding work leaves nothing outstanding.\<close>

lemma run_drains: "work (queue h) \<le> length evs \<Longrightarrow> queue (run evs h) = []"
proof (induction evs arbitrary: h)
  case Nil
  then show ?case by (simp add: work_zero)
next
  case (Cons ev evs)
  show ?case
  proof (cases "queue h = []")
    case True
    then show ?thesis by (simp add: run_quiescent step_quiescent)
  next
    case False
    from step_work [OF this, of ev] Cons.prems
    have "work (queue (step ev h)) \<le> length evs" by simp
    from Cons.IH [OF this] show ?thesis by simp
  qed
qed

text \<open>A property kept by every piece of work is kept by every schedule.\<close>

lemma run_invariant:
  assumes "P h"
    and "\<And>h xs t ys fl. P h \<Longrightarrow> queue h = xs @ t # ys
           \<Longrightarrow> P (exec t fl (h\<lparr>queue := xs @ ys\<rparr>))"
  shows "P (run evs h)"
  using assms(1)
proof (induction evs arbitrary: h)
  case Nil
  then show ?case by simp
next
  case (Cons ev evs)
  have "P (step ev h)"
  proof (cases "queue h = []")
    case True
    with Cons.prems show ?thesis by (simp add: step_quiescent)
  next
    case False
    from step_decomp [OF this, of ev] obtain xs t ys where
      "queue h = xs @ t # ys" "step ev h = exec t (snd ev) (h\<lparr>queue := xs @ ys\<rparr>)"
      by blast
    with assms(2) [OF Cons.prems] show ?thesis by simp
  qed
  from Cons.IH [OF this] show ?case by simp
qed

lemma run_invariant_failure_free:
  assumes "failure_free evs" and "P h"
    and "\<And>h xs t ys. P h \<Longrightarrow> queue h = xs @ t # ys
           \<Longrightarrow> P (exec t False (h\<lparr>queue := xs @ ys\<rparr>))"
  shows "P (run evs h)"
  using assms(1,2)
proof (induction evs arbitrary: h)
  case Nil
  then show ?case by simp
next
  case (Cons ev evs)
  from Cons.prems have ev: "snd ev = False" and rest: "failure_free evs"
    by (simp_all add: failure_free_def)
  have "P (step ev h)"
  proof (cases "queue h = []")
    case True
    with Cons.prems show ?thesis by (simp add: step_quiescent)
  next
    case False
    from step_decomp [OF this, of ev] obtain xs t ys where
      "queue h = xs @ t # ys" "step ev h = exec t (snd ev) (h\<lparr>queue := xs @ ys\<rparr>)"
      by blast
    with assms(3) [OF Cons.prems(2)] ev show ?thesis by simp
  qed
  from Cons.IH [OF rest this] show ?case by simp
qed

lemma failure_free_append:
  "failure_free sched \<Longrightarrow> failure_free (sched @ replicate n (0, False))"
  by (auto simp: failure_free_def list_all_iff)

lemma batch_exec: "batch (exec t fl h) = batch h"
  by (cases t) (auto split: option.splits)

lemma batch_run: "batch (run evs (start s ts)) = ts"
proof -
  have "batch (run evs (start s ts)) = batch (start s ts)"
    by (rule run_invariant [where P = "\<lambda>h. batch h = batch (start s ts)"])
       (simp_all add: batch_exec)
  then show ?thesis by (simp add: start_def)
qed

lemma work_start: "work (queue (start s ts)) = 8 * length ts"
  by (induction ts) (simp_all add: start_def)

lemma api_sync_batch:
  "exited s = False \<Longrightarrow> ts \<noteq> [] \<Longrightarrow> api_sync sched (Some ts) s =
     (let h = run (sched @ replicate (8 * length ts) (0, False)) (start s ts)
      in (map Json (sent h), \<lparr>store = db h, exited = crashed h\<rparr>))"
  by (cases ts) (simp_all add: api_sync_def)

lemma api_sync_quiescent:
  "queue (run (sched @ replicate (8 * length ts) (0, False)) (start s ts)) = []"
  by (rule run_drains) (simp add: work_start)

text \<open>
  When the given schedule, or the schedule and one more event, leaves nothing outstanding,
  the route's result is read off the handler at that point.
\<close>

lemma api_sync_settled:
  "exited s = False \<Longrightarrow> ts \<noteq> [] \<Longrightarrow> queue (run sched (start s ts)) = [] \<Longrightarrow>
     api_sync sched (Some ts) s =
       (map Json (sent (run sched (start s ts))),
        \<lparr>store = db (run sched (start s ts)), exited = crashed (run sched (start s ts))\<rparr>)"
  by (simp add: api_sync_batch run_append run_quiescent Let_def del: run.simps)

lemma api_sync_settled_next:
  assumes "exited s = False" and "ts \<noteq> []"
    and "queue (run (sched @ [(0, False)]) (start s ts)) = []"
  shows "api_sync sched (Some ts) s =
       (map Json (sent (run (sched @ [(0, False)]) (start s ts))),
        \<lparr>store = db (run (sched @ [(0, False)]) (start s ts)),
         exited = crashed (run (sched @ [(0, False)]) (start s ts))\<rparr>)"
proof -
  from assms(2) obtain m where m: "8 * length ts = Suc m" by (cases ts) auto
  have "sched @ replicate (8 * length ts) (0, False) =
      (sched @ [(0, False)]) @ replicate m (0, False)"
    by (simp add: m)
  then have "run (sched @ replicate (8 * length ts) (0, False)) (start s ts) =
      run (sched @ [(0, False)]) (start s ts)"
    using assms(3) by (simp only: run_append [of "sched @ [(0, False)]"] run_quiescent)
  with assms(1,2) show ?thesis by (simp add: api_sync_batch Let_def del: run.simps)
qed

subsection \<open>Reconciliation: what holds along every schedule\<close>

text \<open>The guard \<open>responseSent\<close> lets at most one response through, storage errors or not.\<close>

lemma sent_at_most_once: "length (sent (run evs (start s ts))) \<le> 1"
proof -
  have "length (sent (run evs (start s ts))) = (if responseSent (run evs (start s ts)) then 1 else 0)"
  proof (rule run_invariant [where P = "\<lambda>h. length (sent h) = (if responseSent h then 1 else 0)"])
    show "length (sent (start s ts)) = (if responseSent (start s ts) then 1 else 0)"
      by (simp add: start_def)
  next
    fix h :: handler and xs t ys fl
    assume "length (sent h) = (if responseSent h then 1 else 0)"
    then show "length (sent (exec t fl (h\<lparr>queue := xs @ ys\<rparr>))) =
        (if responseSent (exec t fl (h\<lparr>queue := xs @ ys\<rparr>)) then 1 else 0)"
      by (cases t) (auto simp: sendResponse_def split: option.splits)
  qed
  then show ?thesis by simp
qed

lemma transactions_debit [simp]: "transactions (debit_user d p a) = transactions d"
  and transactions_credit [simp]: "transactions (credit_merchant d m a) = transactions d"
  by (simp_all add: debit_user_def credit_merchant_def split: option.splits)

lemma recorded_debit [simp]: "recorded (debit_user d p a) = recorded d"
  and recorded_credit [simp]: "recorded (credit_merchant d m a) = recorded d"
  by (simp_all add: recorded_def)

text \<open>
  The primary key: token ids stay unique in the table, so there is never more than one
  record of a token id, and no record is ever removed.
\<close>

lemma ids_unique_exec:
  assumes "distinct (map txn_id (transactions (db h)))"
  shows "distinct (map txn_id (transactions (db (exec t fl h))))"
  using assms
  by (cases t)
     (auto simp: insert_txn_def completed_row_def sendResponse_def split: option.splits if_splits)

lemma ids_unique_run:
  assumes "distinct (map txn_id (transactions (store s)))"
  shows "distinct (map txn_id (transactions (db (run evs (start s ts)))))"
proof (rule run_invariant [where P = "\<lambda>h. distinct (map txn_id (transactions (db h)))"])
  from assms show "distinct (map txn_id (transactions (db (start s ts))))"
    by (simp add: start_def)
next
  fix h :: handler and xs t ys fl
  assume "distinct (map txn_id (transactions (db h)))"
  then have "distinct (map txn_id (transactions (db (h\<lparr>queue := xs @ ys\<rparr>))))" by simp
  then show "distinct (map txn_id (transactions (db (exec t fl (h\<lparr>queue := xs @ ys\<rparr>)))))"
    by (rule ids_unique_exec)
qed

lemma ids_unique_api_sync:
  assumes "distinct (map txn_id (transactions (store s)))"
  shows "distinct (map txn_id (transactions (store (snd (api_sync sched body s)))))"
proof (cases "exited s \<or> body = None \<or> body = Some []")
  case True
  with assms show ?thesis by (auto simp: api_sync_def)
next
  case False
  then obtain ts where "body = Some ts" "ts \<noteq> []" "exited s = False" by auto
  with ids_unique_run [OF assms] show ?thesis by (simp add: api_sync_batch Let_def)
qed

lemma recorded_exec: "recorded (db h) \<subseteq> recorded (db (exec t fl h))"
  by (cases t) (auto simp: insert_txn_def recorded_def split: option.splits if_splits)

subsection \<open>Reconciliation: requests handled without a storage error\<close>

lemma counted_start: "ts \<noteq> [] \<Longrightarrow> counted (start s ts)"
  by (simp add: counted_def start_def filter_map comp_def)

lemma counted_exec:
  assumes "counted h" and "queue h = xs @ t # ys"
  shows "counted (exec t False (h\<lparr>queue := xs @ ys\<rparr>))"
  using assms
  by (cases t)
     (auto simp: counted_def sendResponse_def simp del: length_0_conv split: option.splits)

lemma counted_run: "ts \<noteq> [] \<Longrightarrow> failure_free evs \<Longrightarrow> counted (run evs (start s ts))"
  by (rule run_invariant_failure_free [where P = counted]) (simp_all add: counted_start counted_exec)

text \<open>
  When no statement fails, a non-empty batch is answered with exactly one response, along
  every order of completion; its counts add up to the batch length, and the process
  keeps running.
\<close>

lemma sync_responds_once_failure_free:
  assumes "ts \<noteq> []" and "failure_free sched" and "exited s = False"
  shows "\<exists>r. fst (api_sync sched (Some ts) s) = [Json r]
              \<and> resp_processed r + resp_failed r = length ts
              \<and> length (resp_results r) = length ts
              \<and> list_all (\<lambda>x. snd x \<in> set [''duplicate'', ''amount_exceeded'', ''error'',
                                             ''success''])
                   (resp_results r)
              \<and> exited (snd (api_sync sched (Some ts) s)) = False"
proof -
  let ?h = "run (sched @ replicate (8 * length ts) (0, False)) (start s ts)"
  have "counted ?h"
    by (rule counted_run [OF assms(1) failure_free_append [OF assms(2)]])
  moreover have "queue ?h = []" by (rule api_sync_quiescent)
  moreover have "batch ?h = ts" by (rule batch_run)
  ultimately show ?thesis
    using assms(1,3) by (simp add: api_sync_batch Let_def counted_def)
qed

text \<open>
  Along every schedule, storage errors included: unless an \<open>UPDATE\<close> has failed, the
  counters agree with the work outstanding; once one has failed, its error event is
  outstanding until the process ends.
\<close>

lemma counted_exec_any:
  assumes "counted h" and "queue h = xs @ t # ys"
  shows "counted (exec t fl (h\<lparr>queue := xs @ ys\<rparr>))
       \<or> filter is_failure (queue (exec t fl (h\<lparr>queue := xs @ ys\<rparr>))) \<noteq> []"
  using assms
  by (cases t)
     (auto simp: counted_def sendResponse_def simp del: length_0_conv split: option.splits)

lemma failure_pending_exec:
  assumes "filter is_failure (queue h) \<noteq> []" and "queue h = xs @ t # ys"
  shows "crashed (exec t fl (h\<lparr>queue := xs @ ys\<rparr>))
       \<or> filter is_failure (queue (exec t fl (h\<lparr>queue := xs @ ys\<rparr>))) \<noteq> []"
  using assms by (cases t) (auto split: option.splits)

lemma crashed_exec: "crashed h \<Longrightarrow> crashed (exec t fl h)"
  by (cases t) (auto split: option.splits)

lemma counted_or_failed_run:
  assumes "ts \<noteq> []"
  shows "counted (run evs (start s ts))
       \<or> filter is_failure (queue (run evs (start s ts))) \<noteq> []
       \<or> crashed (run evs (start s ts))"
proof (rule run_invariant
    [where P = "\<lambda>h. counted h \<or> filter is_failure (queue h) \<noteq> [] \<or> crashed h"])
  from assms show "counted (start s ts) \<or> filter is_failure (queue (start s ts)) \<noteq> []
      \<or> crashed (start s ts)"
    by (simp add: counted_start)
next
  fix h :: handler and xs t ys fl
  assume P: "counted h \<or> filter is_failure (queue h) \<noteq> [] \<or> crashed h"
    and q: "queue h = xs @ t # ys"
  let ?h = "exec t fl (h\<lparr>queue := xs @ ys\<rparr>)"
  from P consider "counted h" | "filter is_failure (queue h) \<noteq> []" | "crashed h" by blast
  then show "counted ?h \<or> filter is_failure (queue ?h) \<noteq> [] \<or> crashed ?h"
  proof cases
    case 1
    from counted_exec_any [OF this q, of fl] show ?thesis by blast
  next
    case 2
    from failure_pending_exec [OF this q, of fl] show ?thesis by blast
  next
    case 3
    then have "crashed (h\<lparr>queue := xs @ ys\<rparr>)" by simp
    from crashed_exec [OF this, of t fl] show ?thesis by blast
  qed
qed

text \<open>
  So a non-empty batch is answered with exactly one response along every schedule, unless
  the process ends.
\<close>

lemma sync_responds_once_or_exits:
  assumes "ts \<noteq> []" and "exited s = False"
  shows "exited (snd (api_sync sched (Some ts) s))
       \<or> (\<exists>r. fst (api_sync sched (Some ts) s) = [Json r]
              \<and> resp_processed r + resp_failed r = length ts
              \<and> length (resp_results r) = length ts)"
proof -
  let ?h = "run (sched @ replicate (8 * length ts) (0, False)) (start s ts)"
  have q: "queue ?h = []" by (rule api_sync_quiescent)
  have b: "batch ?h = ts" by (rule batch_run)
  from counted_or_failed_run [OF assms(1), of "sched @ replicate (8 * length ts) (0, False)" s] q
  have "counted ?h \<or> crashed ?h" by simp
  then show ?thesis
  proof
    assume "counted ?h"
    with q b assms show ?thesis by (simp add: api_sync_batch Let_def counted_def)
  next
    assume "crashed ?h"
    with assms show ?thesis by (simp add: api_sync_batch Let_def)
  qed
qed

lemma select_txn_recorded: "i \<in> recorded d \<Longrightarrow> select_txn d i \<noteq> None"
  by (auto simp: select_txn_def recorded_def find_None_iff)

lemma select_txn_fresh: "i \<notin> recorded d \<Longrightarrow> select_txn d i = None"
  by (auto simp: select_txn_def recorded_def find_None_iff)

lemma statuses_simps [simp]:
  "statuses i [] = []"
  "statuses i (rs @ [(j, st)]) = statuses i rs @ (if j = i then [st] else [])"
  by (simp_all add: statuses_def)

lemma resubmitted_start:
  "i \<in> recorded (store s) \<Longrightarrow> resubmitted i (start s ts)"
  by (simp add: resubmitted_def start_def filter_map comp_def list_all_iff)

lemma resubmitted_exec:
  assumes "resubmitted i h" and "queue h = xs @ t # ys"
  shows "resubmitted i (exec t False (h\<lparr>queue := xs @ ys\<rparr>))"
proof (cases "txnId (task_txn t) = i")
  case True
  with assms have look: "is_lookup t" by (simp add: resubmitted_def)
  from assms have rec: "i \<in> recorded (db h)" by (simp add: resubmitted_def)
  show ?thesis
  proof (cases t)
    case (Get x)
    with assms True select_txn_recorded [OF rec] show ?thesis
      by (auto simp: resubmitted_def)
  next
    case (GetCb x r)
    with look obtain row where "r = Some row" by auto
    with assms True GetCb show ?thesis by (auto simp: resubmitted_def)
  qed (use look in simp_all)
next
  case False
  from assms have rec: "i \<in> recorded (db h)" by (simp add: resubmitted_def)
  with recorded_exec [of "h\<lparr>queue := xs @ ys\<rparr>" t False]
  have rec': "i \<in> recorded (db (exec t False (h\<lparr>queue := xs @ ys\<rparr>)))" by auto
  show ?thesis
    using assms False rec'
    by (cases t) (auto simp: resubmitted_def split: option.splits)
qed

lemma resubmitted_run:
  assumes "failure_free evs" and "i \<in> recorded (store s)"
  shows "resubmitted i (run evs (start s ts))"
  by (rule run_invariant_failure_free [where P = "resubmitted i",
        OF assms(1) resubmitted_start [OF assms(2)] resubmitted_exec])

lemma untouched_start:
  "list_all (\<lambda>t. txnId t \<in> recorded (store s)) ts \<Longrightarrow> untouched (store s) (start s ts)"
  by (simp add: untouched_def start_def list_all_iff)

lemma untouched_exec:
  assumes "untouched d h" and "queue h = xs @ t # ys"
  shows "untouched d (exec t False (h\<lparr>queue := xs @ ys\<rparr>))"
proof -
  from assms have look: "is_lookup t" and rec: "txnId (task_txn t) \<in> recorded (db h)"
    by (simp_all add: untouched_def)
  show ?thesis
  proof (cases t)
    case (Get x)
    with assms rec select_txn_recorded [of "txnId x" "db h"] show ?thesis
      by (auto simp: untouched_def)
  next
    case (GetCb x r)
    with look obtain row where "r = Some row" by auto
    with assms GetCb show ?thesis by (auto simp: untouched_def)
  qed (use look in simp_all)
qed

lemma untouched_run:
  assumes "failure_free evs" and "list_all (\<lambda>t. txnId t \<in> recorded (store s)) ts"
  shows "untouched (store s) (run evs (start s ts))"
  by (rule run_invariant_failure_free [where P = "untouched (store s)",
        OF assms(1) untouched_start [OF assms(2)] untouched_exec])

text \<open>
  When no statement fails, every element whose token id is recorded when the request
  arrives is answered \<open>duplicate\<close>, along every order of completion; a batch made of
  recorded tokens only leaves the database as it was.
\<close>

lemma resubmission_duplicate:
  assumes "failure_free sched" and "i \<in> recorded (store s)" and "exited s = False"
  shows "\<exists>r. fst (api_sync sched (Some ts) s) = [Json r]
            \<and> list_all (\<lambda>x. x = ''duplicate'') (statuses i (resp_results r))
            \<and> length (statuses i (resp_results r)) = length (filter (\<lambda>t. txnId t = i) ts)"
proof (cases "ts = []")
  case True
  with assms(3) show ?thesis by (simp add: api_sync_def)
next
  case False
  let ?h = "run (sched @ replicate (8 * length ts) (0, False)) (start s ts)"
  have "resubmitted i ?h"
    by (rule resubmitted_run [OF failure_free_append [OF assms(1)] assms(2)])
  moreover have "counted ?h"
    by (rule counted_run [OF False failure_free_append [OF assms(1)]])
  moreover have "queue ?h = []" by (rule api_sync_quiescent)
  moreover have "batch ?h = ts" by (rule batch_run)
  ultimately show ?thesis
    using False assms(3) by (simp add: api_sync_batch Let_def resubmitted_def counted_def)
qed

lemma resubmission_untouched:
  assumes "failure_free sched" and "list_all (\<lambda>t. txnId t \<in> recorded (store s)) ts"
  shows "snd (api_sync sched (Some ts) s) = s"
proof (cases "ts = [] \<or> exited s")
  case True
  then show ?thesis by (auto simp: api_sync_def)
next
  case False
  let ?h = "run (sched @ replicate (8 * length ts) (0, False)) (start s ts)"
  have "untouched (store s) ?h"
    by (rule untouched_run [OF failure_free_append [OF assms(1)] assms(2)])
  with False show ?thesis by (simp add: api_sync_batch Let_def untouched_def)
qed

subsection \<open>Reconciliation: concrete runs\<close>

lemmas sync_eval = start_def sendResponse_def select_txn_def insert_txn_def completed_row_def
  debit_user_def credit_merchant_def step_head step_second step_third step_quiescent
  double_round_values

lemma servers_running [simp]:
  "exited demo_server = False"
  "exited demo_server_synced = False"
  by (simp_all add: demo_server_def demo_server_synced_def)

text \<open>
  A fresh token within the cap, handled oldest work first and without a storage error: it
  is recorded as completed and reported as \<open>success\<close>, the payer's row (if there is one)
  is debited and the merchant's row (if there is one) is credited.
\<close>

lemma fresh_token_sync:
  assumes "exited s = False" and "txnId t \<notin> recorded (store s)" and "amount t \<le> 500"
  shows "api_sync fifo6 (Some [t]) s =
     ([Json \<lparr>success = True, resp_processed = 1, resp_failed = 0,
              resp_results = [(txnId t, ''success'')]\<rparr>],
      \<lparr>store = credit_merchant
                 (debit_user ((store s)\<lparr>transactions := transactions (store s) @ [completed_row t]\<rparr>)
                    (fromPhone t) (amount t))
                 (toMerchant t) (amount t),
       exited = False\<rparr>)"
proof -
  from assms(2) have sel: "select_txn (store s) (txnId t) = None" by (rule select_txn_fresh)
  from assms(2) have ins: "insert_txn (store s) t =
      Some ((store s)\<lparr>transactions := transactions (store s) @ [completed_row t]\<rparr>)"
    by (simp add: insert_txn_def recorded_def)
  have r: "run fifo6 (start s [t]) =
     \<lparr>db = credit_merchant
             (debit_user ((store s)\<lparr>transactions := transactions (store s) @ [completed_row t]\<rparr>)
                (fromPhone t) (amount t))
             (toMerchant t) (amount t),
      batch = [t], queue = [], processed = 1, failed = 0,
      results = [(txnId t, ''success'')], responseSent = True,
      sent = [\<lparr>success = True, resp_processed = 1, resp_failed = 0,
               resp_results = [(txnId t, ''success'')]\<rparr>],
      crashed = False\<rparr>"
    using assms(3) by (simp add: fifo6_def start_def sendResponse_def step_head sel ins)
  show ?thesis
    using assms(1) by (simp add: api_sync_settled r)
qed

lemma demo_run:
  "run fifo6 (start demo_server [demo_txn]) =
     \<lparr>db = \<lparr>users = [''9800000001'' \<mapsto>
                      \<lparr>balance = 5000, offline_balance = 1700, public_key = ''K''\<rparr>],
            merchants = [''M1'' \<mapsto> \<lparr>merchant_balance = 100, merchant_public_key = ''MK''\<rparr>],
            transactions = [completed_row demo_txn]\<rparr>,
      batch = [demo_txn], queue = [], processed = 1, failed = 0,
      results = [(''T1'', ''success'')], responseSent = True,
      sent = [\<lparr>success = True, resp_processed = 1, resp_failed = 0,
               resp_results = [(''T1'', ''success'')]\<rparr>],
      crashed = False\<rparr>"
  by (simp add: fifo6_def sync_eval demo_server_def demo_db_def demo_txn_def)

lemma demo_sync_first:
  "api_sync fifo6 (Some [demo_txn]) demo_server =
     ([Json \<lparr>success = True, resp_processed = 1, resp_failed = 0,
              resp_results = [(''T1'', ''success'')]\<rparr>], demo_server_synced)"
  by (simp add: api_sync_settled demo_run demo_server_synced_def)

lemma demo_run_again:
  "run fifo6 (start demo_server_synced [demo_txn]) =
     \<lparr>db = store demo_server_synced,
      batch = [demo_txn], queue = [], processed = 0, failed = 1,
      results = [(''T1'', ''duplicate'')], responseSent = True,
      sent = [\<lparr>success = True, resp_processed = 0, resp_failed = 1,
               resp_results = [(''T1'', ''duplicate'')]\<rparr>],
      crashed = False\<rparr>"
  by (simp add: fifo6_def sync_eval demo_server_synced_def demo_txn_def)

lemma demo_sync_second:
  "api_sync fifo6 (Some [demo_txn]) demo_server_synced =
     ([Json \<lparr>success = True, resp_processed = 0, resp_failed = 1,
              resp_results = [(''T1'', ''duplicate'')]\<rparr>], demo_server_synced)"
  by (simp add: api_sync_settled demo_run_again)

subsection \<open>Reconciliation: a failed update ends the process\<close>

lemma crash_run:
  "run first_update_fails (start demo_server [demo_txn, late_txn]) =
     \<lparr>db = \<lparr>users = [''9800000001'' \<mapsto>
                      \<lparr>balance = 5000, offline_balance = 1800, public_key = ''K''\<rparr>],
            merchants = [''M1'' \<mapsto> \<lparr>merchant_balance = 0, merchant_public_key = ''MK''\<rparr>],
            transactions = [completed_row demo_txn]\<rparr>,
      batch = [demo_txn, late_txn], queue = [], processed = 1, failed = 0,
      results = [(''T1'', ''success'')], responseSent = False, sent = [], crashed = True\<rparr>"
  by (simp add: first_update_fails_def sync_eval demo_server_def demo_db_def demo_txn_def
        late_txn_def)

text \<open>
  C8. The two \<open>UPDATE\<close>s are run without a callback, so an \<open>UPDATE\<close> that fails ends the
  process. In a batch of two fresh tokens, let the first token be inserted and counted
  and let its \<open>UPDATE users\<close> report a storage error before the second token has been
  looked up: the process ends with one element counted out of two, and no response is
  ever written for the request. The record of the first token stays, completed, with
  neither balance changed.
\<close>

theorem sync_crash_sends_no_response:
  "fst (api_sync first_update_fails (Some [demo_txn, late_txn]) demo_server) = []
   \<and> exited (snd (api_sync first_update_fails (Some [demo_txn, late_txn]) demo_server)) = True
   \<and> transactions (store (snd (api_sync first_update_fails (Some [demo_txn, late_txn])
        demo_server))) = [completed_row demo_txn]
   \<and> users (store (snd (api_sync first_update_fails (Some [demo_txn, late_txn]) demo_server))) =
       users (store demo_server)
   \<and> merchants (store (snd (api_sync first_update_fails (Some [demo_txn, late_txn])
        demo_server))) = merchants (store demo_server)"
  by (simp add: api_sync_settled crash_run) (simp add: demo_server_def demo_db_def)

subsection \<open>Reconciliation: resubmission after a partial update\<close>

lemma debit_fails_run:
  "run (fifo6_debit_fails @ [(0, False)]) (start demo_server [demo_txn]) =
     \<lparr>db = \<lparr>users = [''9800000001'' \<mapsto>
                      \<lparr>balance = 5000, offline_balance = 1800, public_key = ''K''\<rparr>],
            merchants = [''M1'' \<mapsto> \<lparr>merchant_balance = 100, merchant_public_key = ''MK''\<rparr>],
            transactions = [completed_row demo_txn]\<rparr>,
      batch = [demo_txn], queue = [], processed = 1, failed = 0,
      results = [(''T1'', ''success'')], responseSent = True,
      sent = [\<lparr>success = True, resp_processed = 1, resp_failed = 0,
               resp_results = [(''T1'', ''success'')]\<rparr>],
      crashed = True\<rparr>"
  by (simp add: fifo6_debit_fails_def sync_eval demo_server_def demo_db_def demo_txn_def)

lemma debit_fails_sync:
  "api_sync fifo6_debit_fails (Some [demo_txn]) demo_server =
     ([Json \<lparr>success = True, resp_processed = 1, resp_failed = 0,
              resp_results = [(''T1'', ''success'')]\<rparr>],
      \<lparr>store = \<lparr>users = [''9800000001'' \<mapsto>
                          \<lparr>balance = 5000, offline_balance = 1800, public_key = ''K''\<rparr>],
                merchants = [''M1'' \<mapsto> \<lparr>merchant_balance = 100, merchant_public_key = ''MK''\<rparr>],
                transactions = [completed_row demo_txn]\<rparr>,
       exited = True\<rparr>)"
  by (simp add: api_sync_settled_next debit_fails_run)

lemma debit_fails_retry_run:
  "run fifo6 (start \<lparr>store = \<lparr>users = [''9800000001'' \<mapsto>
                          \<lparr>balance = 5000, offline_balance = 1800, public_key = ''K''\<rparr>],
                merchants = [''M1'' \<mapsto> \<lparr>merchant_balance = 100, merchant_public_key = ''MK''\<rparr>],
                transactions = [completed_row demo_txn]\<rparr>,
       exited = False\<rparr> [demo_txn]) =
     \<lparr>db = \<lparr>users = [''9800000001'' \<mapsto>
                      \<lparr>balance = 5000, offline_balance = 1800, public_key = ''K''\<rparr>],
            merchants = [''M1'' \<mapsto> \<lparr>merchant_balance = 100, merchant_public_key = ''MK''\<rparr>],
            transactions = [completed_row demo_txn]\<rparr>,
      batch = [demo_txn], queue = [], processed = 0, failed = 1,
      results = [(''T1'', ''duplicate'')], responseSent = True,
      sent = [\<lparr>success = True, resp_processed = 0, resp_failed = 1,
               resp_results = [(''T1'', ''duplicate'')]\<rparr>],
      crashed = False\<rparr>"
  by (simp add: fifo6_def sync_eval demo_txn_def)

lemma debit_fails_retry:
  "api_sync fifo6 (Some [demo_txn])
      \<lparr>store = \<lparr>users = [''9800000001'' \<mapsto>
                          \<lparr>balance = 5000, offline_balance = 1800, public_key = ''K''\<rparr>],
                merchants = [''M1'' \<mapsto> \<lparr>merchant_balance = 100, merchant_public_key = ''MK''\<rparr>],
                transactions = [completed_row demo_txn]\<rparr>,
       exited = False\<rparr> =
     ([Json \<lparr>success = True, resp_processed = 0, resp_failed = 1,
              resp_results = [(''T1'', ''duplicate'')]\<rparr>],
      \<lparr>store = \<lparr>users = [''9800000001'' \<mapsto>
                          \<lparr>balance = 5000, offline_balance = 1800, public_key = ''K''\<rparr>],
                merchants = [''M1'' \<mapsto> \<lparr>merchant_balance = 100, merchant_public_key = ''MK''\<rparr>],
                transactions = [completed_row demo_txn]\<rparr>,
       exited = False\<rparr>)"
  by (simp add: api_sync_settled debit_fails_retry_run)

lemma stranger_run:
  "run fifo6 (start demo_server [stranger_txn]) =
     \<lparr>db = \<lparr>users = [''9800000001'' \<mapsto>
                      \<lparr>balance = 5000, offline_balance = 1800, public_key = ''K''\<rparr>],
            merchants = [''M1'' \<mapsto> \<lparr>merchant_balance = 100, merchant_public_key = ''MK''\<rparr>],
            transactions = [completed_row stranger_txn]\<rparr>,
      batch = [stranger_txn], queue = [], processed = 1, failed = 0,
      results = [(''T4'', ''success'')], responseSent = True,
      sent = [\<lparr>success = True, resp_processed = 1, resp_failed = 0,
               resp_results = [(''T4'', ''success'')]\<rparr>],
      crashed = False\<rparr>"
  by (simp add: fifo6_def sync_eval demo_server_def demo_db_def stranger_txn_def)

lemma stranger_sync:
  "api_sync fifo6 (Some [stranger_txn]) demo_server =
     ([Json \<lparr>success = True, resp_processed = 1, resp_failed = 0,
              resp_results = [(''T4'', ''success'')]\<rparr>],
      \<lparr>store = \<lparr>users = [''9800000001'' \<mapsto>
                          \<lparr>balance = 5000, offline_balance = 1800, public_key = ''K''\<rparr>],
                merchants = [''M1'' \<mapsto> \<lparr>merchant_balance = 100, merchant_public_key = ''MK''\<rparr>],
                transactions = [completed_row stranger_txn]\<rparr>,
       exited = False\<rparr>)"
  by (simp add: api_sync_settled stranger_run)

lemma stranger_again_run:
  "run fifo6 (start \<lparr>store = \<lparr>users = [''9800000001'' \<mapsto>
                          \<lparr>balance = 5000, offline_balance = 1800, public_key = ''K''\<rparr>],
                merchants = [''M1'' \<mapsto> \<lparr>merchant_balance = 100, merchant_public_key = ''MK''\<rparr>],
                transactions = [completed_row stranger_txn]\<rparr>,
       exited = False\<rparr> [stranger_txn]) =
     \<lparr>db = \<lparr>users = [''9800000001'' \<mapsto>
                      \<lparr>balance = 5000, offline_balance = 1800, public_key = ''K''\<rparr>],
            merchants = [''M1'' \<mapsto> \<lparr>merchant_balance = 100, merchant_public_key = ''MK''\<rparr>],
            transactions = [completed_row stranger_txn]\<rparr>,
      batch = [stranger_txn], queue = [], processed = 0, failed = 1,
      results = [(''T4'', ''duplicate'')], responseSent = True,
      sent = [\<lparr>success = True, resp_processed = 0, resp_failed = 1,
               resp_results = [(''T4'', ''duplicate'')]\<rparr>],
      crashed = False\<rparr>"
  by (simp add: fifo6_def sync_eval stranger_txn_def)

lemma stranger_again:
  "api_sync fifo6 (Some [stranger_txn])
      \<lparr>store = \<lparr>users = [''9800000001'' \<mapsto>
                          \<lparr>balance = 5000, offline_balance = 1800, public_key = ''K''\<rparr>],
                merchants = [''M1'' \<mapsto> \<lparr>merchant_balance = 100, merchant_public_key = ''MK''\<rparr>],
                transactions = [completed_row stranger_txn]\<rparr>,
       exited = False\<rparr> =
     ([Json \<lparr>success = True, resp_processed = 0, resp_failed = 1,
              resp_results = [(''T4'', ''duplicate'')]\<rparr>],
      \<lparr>store = \<lparr>users = [''9800000001'' \<mapsto>
                          \<lparr>balance = 5000, offline_balance = 1800, public_key = ''K''\<rparr>],
                merchants = [''M1'' \<mapsto> \<lparr>merchant_balance = 100, merchant_public_key = ''MK''\<rparr>],
                transactions = [completed_row stranger_txn]\<rparr>,
       exited = False\<rparr>)"
  by (simp add: api_sync_settled stranger_again_run)

text \<open>
  C1. A recorded token id is answered \<open>duplicate\<close> and is never applied again, yet the
  first submission need not have applied both balance changes, because the \<open>INSERT\<close> and
  the two \<open>UPDATE\<close>s are separate statements with no transaction and no error callback.
  (a) The \<open>UPDATE users\<close> of the token \<open>T1\<close> fails: the record and the merchant's credit
  stay and the process ends; started again, the server answers the resubmitted \<open>T1\<close>
  with \<open>duplicate\<close>, so the payer's debit has been applied not once but never.
  (b) With no storage error at all, the token \<open>T4\<close> of a payer who has no row in the
  users table is recorded and credited to the merchant with no debit anywhere, and its
  resubmission is answered \<open>duplicate\<close>.
\<close>

theorem resubmission_after_partial_update:
  "exited (snd (api_sync fifo6_debit_fails (Some [demo_txn]) demo_server)) = True
   \<and> fst (api_sync fifo6 (Some [demo_txn])
        (restart (snd (api_sync fifo6_debit_fails (Some [demo_txn]) demo_server)))) =
       [Json \<lparr>success = True, resp_processed = 0, resp_failed = 1,
              resp_results = [(''T1'', ''duplicate'')]\<rparr>]
   \<and> store (snd (api_sync fifo6 (Some [demo_txn])
        (restart (snd (api_sync fifo6_debit_fails (Some [demo_txn]) demo_server))))) =
       \<lparr>users = [''9800000001'' \<mapsto>
                   \<lparr>balance = 5000, offline_balance = 1800, public_key = ''K''\<rparr>],
        merchants = [''M1'' \<mapsto> \<lparr>merchant_balance = 100, merchant_public_key = ''MK''\<rparr>],
        transactions = [completed_row demo_txn]\<rparr>
   \<and> store demo_server =
       \<lparr>users = [''9800000001'' \<mapsto>
                   \<lparr>balance = 5000, offline_balance = 1800, public_key = ''K''\<rparr>],
        merchants = [''M1'' \<mapsto> \<lparr>merchant_balance = 0, merchant_public_key = ''MK''\<rparr>],
        transactions = []\<rparr>
   \<and> fst (api_sync fifo6 (Some [stranger_txn]) demo_server) =
       [Json \<lparr>success = True, resp_processed = 1, resp_failed = 0,
              resp_results = [(''T4'', ''success'')]\<rparr>]
   \<and> fst (api_sync fifo6 (Some [stranger_txn])
        (snd (api_sync fifo6 (Some [stranger_txn]) demo_server))) =
       [Json \<lparr>success = True, resp_processed = 0, resp_failed = 1,
              resp_results = [(''T4'', ''duplicate'')]\<rparr>]
   \<and> store (snd (api_sync fifo6 (Some [stranger_txn])
        (snd (api_sync fifo6 (Some [stranger_txn]) demo_server)))) =
       \<lparr>users = [''9800000001'' \<mapsto>
                   \<lparr>balance = 5000, offline_balance = 1800, public_key = ''K''\<rparr>],
        merchants = [''M1'' \<mapsto> \<lparr>merchant_balance = 100, merchant_public_key = ''MK''\<rparr>],
        transactions = [completed_row stranger_txn]\<rparr>
   \<and> fromPhone stranger_txn = ''9811111111''"
  by (simp add: debit_fails_sync restart_def debit_fails_retry stranger_sync stranger_again)
     (simp add: demo_server_def demo_db_def stranger_txn_def)

subsection \<open>Where the code departs from the protocol\<close>

lemma forged_run:
  "run fifo6 (start demo_server_synced [forged_txn\<lparr>signature := sg\<rparr>]) =
     \<lparr>db = \<lparr>users = [''9800000001'' \<mapsto>
                      \<lparr>balance = 5000, offline_balance = 1600, public_key = ''K''\<rparr>],
            merchants = [''M1'' \<mapsto> \<lparr>merchant_balance = 200, merchant_public_key = ''MK''\<rparr>],
            transactions = [completed_row demo_txn, completed_row (forged_txn\<lparr>signature := sg\<rparr>)]\<rparr>,
      batch = [forged_txn\<lparr>signature := sg\<rparr>], queue = [], processed = 1, failed = 0,
      results = [(''T3'', ''success'')], responseSent = True,
      sent = [\<lparr>success = True, resp_processed = 1, resp_failed = 0,
               resp_results = [(''T3'', ''success'')]\<rparr>],
      crashed = False\<rparr>"
  by (simp add: fifo6_def sync_eval demo_server_synced_def demo_txn_def forged_txn_def)

text \<open>
  C2. The route never verifies a signature. A fresh token of a registered payer is
  recorded as completed, the payer is debited and the payee is credited, whatever text
  \<open>sg\<close> its signature field holds.
\<close>

theorem sync_accepts_any_signature:
  "fst (api_sync fifo6 (Some [forged_txn\<lparr>signature := sg\<rparr>]) demo_server_synced) =
       [Json \<lparr>success = True, resp_processed = 1, resp_failed = 0,
              resp_results = [(''T3'', ''success'')]\<rparr>]
   \<and> map row_status (transactions (store (snd (api_sync fifo6
         (Some [forged_txn\<lparr>signature := sg\<rparr>]) demo_server_synced)))) =
       [''completed'', ''completed'']
   \<and> map row_signature (transactions (store (snd (api_sync fifo6
         (Some [forged_txn\<lparr>signature := sg\<rparr>]) demo_server_synced)))) = [''T1|M1K'', sg]
   \<and> users (store (snd (api_sync fifo6 (Some [forged_txn\<lparr>signature := sg\<rparr>])
         demo_server_synced))) ''9800000001'' =
       Some \<lparr>balance = 5000, offline_balance = 1600, public_key = ''K''\<rparr>
   \<and> merchants (store (snd (api_sync fifo6 (Some [forged_txn\<lparr>signature := sg\<rparr>])
         demo_server_synced))) ''M1'' =
       Some \<lparr>merchant_balance = 200, merchant_public_key = ''MK''\<rparr>"
  by (simp add: api_sync_settled forged_run)
     (simp add: forged_txn_def demo_txn_def completed_row_def)

text \<open>
  The replay check itself: with a counter other than 0 recorded for the payer, a token
  whose counter does not exceed it is rejected, good signature or not.
\<close>

lemma replay_rejected:
  assumes "lastCounter s (from_key t) = Some c" and "c \<noteq> 0" and "tok_counter t \<le> c"
  shows "valid (verifyPaymentToken L s now (Some t)) = False"
    and "decodeBase64 L (tok_signature t) = Some sg \<Longrightarrow>
         decodeBase64 L (tok_publicKey t) = Some pk \<Longrightarrow>
         detached_verify L (decodeUTF8 L (stringify L (tokenData t))) sg pk = Some True \<Longrightarrow>
         tok_amount t \<le> 500 \<Longrightarrow>
         verifyPaymentToken L s now (Some t) =
           \<lparr>valid = False, error = Some ''Duplicate transaction''\<rparr>"
  using assms
  by (auto simp: verifyPaymentToken_def verify_try_def replayed_def lastCounter_or_def Let_def
           split: option.splits)

lemma late_run:
  "run fifo6 (start demo_server_synced [late_txn\<lparr>counter_of := c\<rparr>]) =
     \<lparr>db = \<lparr>users = [''9800000001'' \<mapsto>
                      \<lparr>balance = 5000, offline_balance = 1600, public_key = ''K''\<rparr>],
            merchants = [''M1'' \<mapsto> \<lparr>merchant_balance = 200, merchant_public_key = ''MK''\<rparr>],
            transactions = [completed_row demo_txn, completed_row (late_txn\<lparr>counter_of := c\<rparr>)]\<rparr>,
      batch = [late_txn\<lparr>counter_of := c\<rparr>], queue = [], processed = 1, failed = 0,
      results = [(''T2'', ''success'')], responseSent = True,
      sent = [\<lparr>success = True, resp_processed = 1, resp_failed = 0,
               resp_results = [(''T2'', ''success'')]\<rparr>],
      crashed = False\<rparr>"
  by (simp add: fifo6_def sync_eval demo_server_synced_def demo_txn_def late_txn_def)

text \<open>
  C3. On the merchant side \<open>lastCounter[from] || -1\<close> reads a recorded counter 0 as "none":
  after a token with counter 0 has been accepted and recorded, the same token verifies
  again. On the server no counter is compared: with counter 5 recorded for a payer, a new
  token of that payer is completed whatever its counter \<open>c\<close> is, 3 for one.
\<close>

theorem replayed_counters_accepted:
  "lastCounter (merchant_appReducer merchant_initialState (UPDATE_COUNTER ''9800000001'' 0))
      ''9800000001'' = Some 0
   \<and> tok_counter (demo_token\<lparr>tok_counter := 0\<rparr>) \<le> 0
   \<and> verifyPaymentToken demo_lib
        (merchant_appReducer merchant_initialState (UPDATE_COUNTER ''9800000001'' 0)) 2000
        (Some (demo_token\<lparr>tok_counter := 0\<rparr>)) = \<lparr>valid = True, error = None\<rparr>
   \<and> map row_counter (filter (\<lambda>r. from_phone r = fromPhone late_txn)
         (transactions (store demo_server_synced))) = [5]
   \<and> counter_of late_txn = 3
   \<and> fst (api_sync fifo6 (Some [late_txn\<lparr>counter_of := c\<rparr>]) demo_server_synced) =
       [Json \<lparr>success = True, resp_processed = 1, resp_failed = 0,
              resp_results = [(''T2'', ''success'')]\<rparr>]
   \<and> map row_counter (filter (\<lambda>r. from_phone r = fromPhone late_txn)
         (transactions (store (snd (api_sync fifo6 (Some [late_txn\<lparr>counter_of := c\<rparr>])
            demo_server_synced))))) = [5, c]"
  by (simp add: api_sync_settled late_run)
     (simp add: verifyPaymentToken_def verify_try_def demo_lib_def demo_token_def tokenData_def
        replayed_def lastCounter_or_def from_key_def merchant_initialState_def
        demo_server_synced_def completed_row_def demo_txn_def late_txn_def)

text \<open>
  C4. \<open>verifyPaymentToken\<close> reads the token, the counters seen and the clock, and nothing of
  the session being broadcast: its reasons for rejection are five, none of them a session
  mismatch, and a token that carries a session nonce \<open>N1\<close> is accepted 19.5 seconds after
  it was made, when the code it was scanned from has been replaced.
\<close>

theorem verify_ignores_session:
  "error (verifyPaymentToken L s now tok) \<in>
      set [None, Some ''Invalid signature'', Some ''Amount exceeds limit'',
           Some ''Duplicate transaction'', Some ''Token expired'', Some ''Verification failed'']
   \<and> tok_extra (demo_token\<lparr>tok_extra := [(''sessionNonce'', ''N1'')]\<rparr>) = [(''sessionNonce'', ''N1'')]
   \<and> verifyPaymentToken demo_lib merchant_initialState 20500
        (Some (demo_token\<lparr>tok_extra := [(''sessionNonce'', ''N1'')]\<rparr>)) =
       \<lparr>valid = True, error = None\<rparr>"
proof -
  have "error (verifyPaymentToken L s now tok) \<in>
      set [None, Some ''Invalid signature'', Some ''Amount exceeds limit'',
           Some ''Duplicate transaction'', Some ''Token expired'', Some ''Verification failed'']"
    by (simp add: verifyPaymentToken_def verify_try_def Let_def
        split: option.splits sum.splits)
  moreover have "verifyPaymentToken demo_lib merchant_initialState 20500
        (Some (demo_token\<lparr>tok_extra := [(''sessionNonce'', ''N1'')]\<rparr>)) =
       \<lparr>valid = True, error = None\<rparr>"
    by (simp add: verifyPaymentToken_def verify_try_def demo_lib_def demo_token_def tokenData_def
        replayed_def lastCounter_or_def from_key_def merchant_initialState_def
        prototype_members_def)
  ultimately show ?thesis by simp
qed

text \<open>
  C5. The \<open>INSERT\<close> and the two \<open>UPDATE\<close>s are three statements with no transaction around
  them, and the \<open>UPDATE\<close>s have no callback. When the \<open>UPDATE users\<close> statement fails, the
  record stays inserted as completed, the payee is credited, the payer is not debited,
  and the element is reported as \<open>success\<close>. The same partial state arises with no
  storage error at all when the payer is not in the users table: the \<open>UPDATE users\<close>
  matches no row, and the record and the credit stay.
\<close>

theorem sync_partial_update:
  "fst (api_sync fifo6_debit_fails (Some [demo_txn]) demo_server) =
       [Json \<lparr>success = True, resp_processed = 1, resp_failed = 0,
              resp_results = [(''T1'', ''success'')]\<rparr>]
   \<and> transactions (store (snd (api_sync fifo6_debit_fails (Some [demo_txn]) demo_server))) =
       [completed_row demo_txn]
   \<and> users (store (snd (api_sync fifo6_debit_fails (Some [demo_txn]) demo_server))) ''9800000001'' =
       users (store demo_server) ''9800000001''
   \<and> merchants (store (snd (api_sync fifo6_debit_fails (Some [demo_txn]) demo_server))) ''M1'' =
       Some \<lparr>merchant_balance = 100, merchant_public_key = ''MK''\<rparr>
   \<and> merchants (store demo_server) ''M1'' =
       Some \<lparr>merchant_balance = 0, merchant_public_key = ''MK''\<rparr>
   \<and> fst (api_sync fifo6 (Some [stranger_txn]) demo_server) =
       [Json \<lparr>success = True, resp_processed = 1, resp_failed = 0,
              resp_results = [(''T4'', ''success'')]\<rparr>]
   \<and> transactions (store (snd (api_sync fifo6 (Some [stranger_txn]) demo_server))) =
       [completed_row stranger_txn]
   \<and> users (store (snd (api_sync fifo6 (Some [stranger_txn]) demo_server))) =
       users (store demo_server)
   \<and> merchants (store (snd (api_sync fifo6 (Some [stranger_txn]) demo_server))) ''M1'' =
       Some \<lparr>merchant_balance = 100, merchant_public_key = ''MK''\<rparr>"
  by (simp add: debit_fails_sync stranger_sync) (simp add: demo_server_def demo_db_def)

end
